theory Spec2Isabelle
  imports Complex_Main "HOL-Library.Word"
begin

unbundle bit_operations_syntax

section \<open>JavaScript values reaching the password-reset function\<close>

text \<open>
  A JavaScript string is a sequence of UTF-16 code units; \<open>.length\<close> counts them.
  String literals of the source are ASCII and are written through \<open>js\<close>.
\<close>

type_synonym jstring = "16 word list"

definition js :: "string \<Rightarrow> jstring" where
  "js s = map (\<lambda>c. of_nat (of_char c)) s"

text \<open>
  The fields destructured from \<open>await req.json()\<close> are untyped. The model covers an
  absent field, \<open>null\<close>, booleans, strings, and with \<open>JNum n\<close> the numbers that are
  integers of magnitude at most \<open>2^53\<close>: these \<open>req.json()\<close> yields exactly and
  \<open>ToString\<close> prints in plain decimal notation. Arrays, objects and all other numbers
  are left out; \<open>JNum n\<close> with a larger \<open>n\<close> stands for no value of a request.
\<close>

datatype json = JUndefined | JNull | JBool bool | JNum int | JStr jstring

text \<open>\<open>!v\<close> is \<open>\<not> truthy v\<close>.\<close>

fun truthy :: "json \<Rightarrow> bool" where
  "truthy JUndefined = False"
| "truthy JNull = False"
| "truthy (JBool b) = b"
| "truthy (JNum n) = (n \<noteq> 0)"
| "truthy (JStr s) = (s \<noteq> [])"

definition digit_unit :: "nat \<Rightarrow> 16 word" where
  "digit_unit d = of_nat (48 + d)"

text \<open>\<open>Number.prototype.toString\<close> on a non-negative integer.\<close>

fun to_decimal :: "nat \<Rightarrow> jstring" where
  "to_decimal n = (if n < 10 then [digit_unit n] else to_decimal (n div 10) @ [digit_unit (n mod 10)])"

declare to_decimal.simps [simp del]

definition number_to_string :: "int \<Rightarrow> jstring" where
  "number_to_string i = (if i < 0 then 0x2D # to_decimal (nat (- i)) else to_decimal (nat i))"

text \<open>
  \<open>ToString\<close>, applied by \<open>RegExp.prototype.test\<close>, by the template literal inside the
  client's \<open>.eq(column, value)\<close> and by \<open>TextEncoder.encode\<close> to whatever value they get.
\<close>

fun to_string :: "json \<Rightarrow> jstring" where
  "to_string JUndefined = js ''undefined''"
| "to_string JNull = js ''null''"
| "to_string (JBool b) = (if b then js ''true'' else js ''false'')"
| "to_string (JNum n) = number_to_string n"
| "to_string (JStr s) = s"

definition is_digit :: "16 word \<Rightarrow> bool" where
  "is_digit c = (0x30 \<le> c \<and> c \<le> 0x39)"

text \<open>The regular expression \<open>/^[0-9]{10}$/\<close> (no flags) on a string.\<close>

definition ten_digits :: "jstring \<Rightarrow> bool" where
  "ten_digits s = (length s = 10 \<and> list_all is_digit s)"

section \<open>The table store\<close>

record credential =
  cred_id :: nat
  cred_mobile_number :: jstring
  password_hash :: jstring
  updated_at :: int

record otp_row =
  otp_id :: nat
  otp_mobile_number :: jstring
  otp_code :: jstring
  expires_at :: int
  is_used :: bool

record session =
  session_user_id :: nat
  is_active :: bool

record database =
  user_credentials :: "credential list"
  password_reset_otps :: "otp_row list"
  user_sessions :: "session list"

datatype table = UserCredentials | PasswordResetOtps | UserSessions

datatype db_call = Select table | Insert table | Update table | Delete table

text \<open>
  \<open>.maybeSingle()\<close>: the row when exactly one row matches, \<open>null\<close> when none does;
  more than one row is an error of the client, whose \<open>data\<close> is \<open>null\<close> too
  (the handler reads only \<open>data\<close>). \<open>.single()\<close> differs only in also reporting
  an error for no row, which the handler does not read either.
\<close>

fun maybe_single :: "'a list \<Rightarrow> 'a option" where
  "maybe_single [x] = Some x"
| "maybe_single _ = None"

text \<open>
  What one invocation takes from outside the code: timestamps are milliseconds since the
  epoch (\<open>Date.now()\<close>, \<open>new Date()\<close>), \<open>random\<close> is the value of
  \<open>Math.random()\<close>, \<open>new_row_id\<close> the id the store gives an inserted OTP row, and
  the five flags say, for each of the five writes, whether the store reports an error. The
  client returns an error as a value; a write that fails leaves the store as it was. The
  handler reads the \<open>error\<close> of the insert and of the password update only, and
  discards the result of the delete, of the mark-used update and of the session update.
  The reads are taken to succeed.
\<close>

record env =
  configured :: bool
  now :: int
  update_time :: int
  random :: rat
  new_row_id :: nat
  delete_error :: bool
  insert_error :: bool
  update_error :: bool
  mark_used_error :: bool
  sessions_error :: bool

record response =
  status :: nat
  body :: "(string \<times> json) list option"

record result =
  resp :: response
  db_after :: database
  calls :: "db_call list"

definition json_response :: "nat \<Rightarrow> (string \<times> json) list \<Rightarrow> response" where
  "json_response st b = \<lparr>status = st, body = Some b\<rparr>"

definition error_response :: "nat \<Rightarrow> string \<Rightarrow> response" where
  "error_response st msg = json_response st [(''error'', JStr (js msg))]"

section \<open>The password-reset function\<close>

subsection \<open>Double-precision arithmetic\<close>

text \<open>
  A JavaScript number is an IEEE 754 double; the finite ones are rationals. The result
  of \<open>*\<close> and \<open>+\<close> is the exact result rounded to the nearest double, ties to the
  even significand: \<open>to_double\<close>, for magnitudes below \<open>2^1024\<close>, which this
  program does not leave.
\<close>

fun log2_nat :: "nat \<Rightarrow> nat" where
  "log2_nat n = (if n < 2 then 0 else Suc (log2_nat (n div 2)))"

declare log2_nat.simps [simp del]

text \<open>For \<open>x > 0\<close>, the \<open>e\<close> with \<open>2^e \<le> x < 2^(e+1)\<close>.\<close>

definition floor_log2 :: "rat \<Rightarrow> int" where
  "floor_log2 x =
     (let (p, q) = quotient_of x;
          e0 = int (log2_nat (nat p)) - int (log2_nat (nat q))
      in if 2 powi e0 \<le> x then e0 else e0 - 1)"

definition round_even :: "rat \<Rightarrow> int" where
  "round_even q =
     (let f = \<lfloor>q\<rfloor>; d = q - of_int f
      in if d < 1 / 2 then f else if 1 / 2 < d then f + 1 else if even f then f else f + 1)"

text \<open>
  The unit in the last place of a non-negative number: 52 bits below its leading bit,
  and \<open>2^-1074\<close> for the subnormal numbers.
\<close>

definition ulp :: "rat \<Rightarrow> rat" where
  "ulp a = 2 powi (max (floor_log2 a) (- 1022) - 52)"

definition to_double :: "rat \<Rightarrow> rat" where
  "to_double x = sgn x * of_int (round_even (\<bar>x\<bar> / ulp \<bar>x\<bar>)) * ulp \<bar>x\<bar>"

definition is_double :: "rat \<Rightarrow> bool" where
  "is_double x = (to_double x = x)"

text \<open>
  \<open>Math.floor(100000 + Math.random() * 900000).toString()\<close>, the product and the sum
  each rounded to a double; \<open>r\<close> is the value of \<open>Math.random()\<close>.
\<close>

definition generateOTP :: "rat \<Rightarrow> jstring" where
  "generateOTP r = to_decimal (nat \<lfloor>to_double (100000 + to_double (r * 900000))\<rfloor>)"

definition credentials_by_mobile :: "database \<Rightarrow> jstring \<Rightarrow> credential list" where
  "credentials_by_mobile db m = filter (\<lambda>c. cred_mobile_number c = m) (user_credentials db)"

definition delete_otps :: "jstring \<Rightarrow> database \<Rightarrow> database" where
  "delete_otps m db =
     db\<lparr>password_reset_otps := filter (\<lambda>r. otp_mobile_number r \<noteq> m) (password_reset_otps db)\<rparr>"

text \<open>
  Modelled from the spec: the table definition is not part of the sources. A new OTP row
  starts unused and gets its id from the store.
\<close>

definition insert_otp :: "nat \<Rightarrow> jstring \<Rightarrow> jstring \<Rightarrow> int \<Rightarrow> database \<Rightarrow> database" where
  "insert_otp i m c t db =
     db\<lparr>password_reset_otps := password_reset_otps db @
        [\<lparr>otp_id = i, otp_mobile_number = m, otp_code = c, expires_at = t, is_used = False\<rparr>]\<rparr>"

definition request_otp :: "env \<Rightarrow> json \<Rightarrow> database \<Rightarrow> result" where
  "request_otp e mobile_number db =
    (if \<not> truthy mobile_number \<or> \<not> ten_digits (to_string mobile_number) then
       \<lparr>resp = error_response 400 ''Please enter a valid 10-digit mobile number'',
        db_after = db, calls = []\<rparr>
     else
       case maybe_single (credentials_by_mobile db (to_string mobile_number)) of
         None \<Rightarrow>
           \<lparr>resp = error_response 404 ''No account found with this mobile number'',
            db_after = db, calls = [Select UserCredentials]\<rparr>
       | Some existingUser \<Rightarrow>
           let db1 = (if delete_error e then db else delete_otps (to_string mobile_number) db);
               otpCode = generateOTP (random e);
               expiresAt = now e + 10 * 60 * 1000;
               issued = [Select UserCredentials, Delete PasswordResetOtps, Insert PasswordResetOtps]
           in if insert_error e then
                \<lparr>resp = error_response 500 ''Failed to generate OTP'', db_after = db1, calls = issued\<rparr>
              else
                \<lparr>resp = json_response 200
                   [(''success'', JBool True),
                    (''message'', JStr (js ''OTP sent successfully'')),
                    (''debug_otp'', JStr otpCode)],
                 db_after = insert_otp (new_row_id e) (to_string mobile_number) otpCode expiresAt db1,
                 calls = issued\<rparr>)"

text \<open>
  The query both \<open>verify_otp\<close> and \<open>reset_password\<close> make:
  \<open>.eq("mobile_number", m).eq("otp_code", c).eq("is_used", false).gte("expires_at", now).maybeSingle()\<close>.
\<close>

definition find_valid_otp :: "database \<Rightarrow> jstring \<Rightarrow> jstring \<Rightarrow> int \<Rightarrow> otp_row option" where
  "find_valid_otp db m c t =
     maybe_single (filter (\<lambda>r. otp_mobile_number r = m \<and> otp_code r = c \<and> is_used r = False \<and> t \<le> expires_at r)
       (password_reset_otps db))"

definition verify_otp :: "env \<Rightarrow> json \<Rightarrow> json \<Rightarrow> database \<Rightarrow> result" where
  "verify_otp e mobile_number otp db =
    (if \<not> truthy mobile_number \<or> \<not> truthy otp then
       \<lparr>resp = error_response 400 ''Mobile number and OTP are required'', db_after = db, calls = []\<rparr>
     else
       case find_valid_otp db (to_string mobile_number) (to_string otp) (now e) of
         None \<Rightarrow>
           \<lparr>resp = error_response 400 ''Invalid or expired OTP'',
            db_after = db, calls = [Select PasswordResetOtps]\<rparr>
       | Some otpRecord \<Rightarrow>
           \<lparr>resp = json_response 200
              [(''success'', JBool True),
               (''message'', JStr (js ''OTP verified successfully'')),
               (''verified'', JBool True)],
            db_after = db, calls = [Select PasswordResetOtps]\<rparr>)"

subsection \<open>Hashing\<close>

definition is_high_surrogate :: "16 word \<Rightarrow> bool" where
  "is_high_surrogate c = (0xD800 \<le> c \<and> c \<le> 0xDBFF)"

definition is_low_surrogate :: "16 word \<Rightarrow> bool" where
  "is_low_surrogate c = (0xDC00 \<le> c \<and> c \<le> 0xDFFF)"

text \<open>
  \<open>TextEncoder.encode\<close> reads the string as code points, a surrogate without its partner
  as U+FFFD, and writes them in UTF-8.
\<close>

fun code_points :: "jstring \<Rightarrow> nat list" where
  "code_points [] = []"
| "code_points [c] = [if is_high_surrogate c \<or> is_low_surrogate c then 0xFFFD else unat c]"
| "code_points (c # d # rest) =
     (if is_high_surrogate c \<and> is_low_surrogate d then
        (0x10000 + (unat c - 0xD800) * 0x400 + (unat d - 0xDC00)) # code_points rest
      else if is_high_surrogate c \<or> is_low_surrogate c then 0xFFFD # code_points (d # rest)
      else unat c # code_points (d # rest))"

definition utf8_bytes :: "nat \<Rightarrow> 8 word list" where
  "utf8_bytes n =
     (if n < 0x80 then [of_nat n]
      else if n < 0x800 then [of_nat (0xC0 + n div 0x40), of_nat (0x80 + n mod 0x40)]
      else if n < 0x10000 then
        [of_nat (0xE0 + n div 0x1000), of_nat (0x80 + n div 0x40 mod 0x40), of_nat (0x80 + n mod 0x40)]
      else
        [of_nat (0xF0 + n div 0x40000), of_nat (0x80 + n div 0x1000 mod 0x40),
         of_nat (0x80 + n div 0x40 mod 0x40), of_nat (0x80 + n mod 0x40)])"

definition encode :: "jstring \<Rightarrow> 8 word list" where
  "encode s = concat (map utf8_bytes (code_points s))"

definition hex_unit :: "nat \<Rightarrow> 16 word" where
  "hex_unit d = (if d < 10 then of_nat (48 + d) else of_nat (87 + d))"

text \<open>\<open>b.toString(16)\<close> on a non-negative integer.\<close>

fun to_hex :: "nat \<Rightarrow> jstring" where
  "to_hex n = (if n < 16 then [hex_unit n] else to_hex (n div 16) @ [hex_unit (n mod 16)])"

declare to_hex.simps [simp del]

definition padStart :: "nat \<Rightarrow> 16 word \<Rightarrow> jstring \<Rightarrow> jstring" where
  "padStart k c s = replicate (k - length s) c @ s"

text \<open>\<open>new Uint8Array(hashBuffer)\<close>: the 32 bytes of a 256-bit digest, first byte first.\<close>

definition digest_bytes :: "256 word \<Rightarrow> 8 word list" where
  "digest_bytes w = map (\<lambda>i. ucast (drop_bit (8 * (31 - i)) w)) [0..<32]"

text \<open>
  \<open>crypto.subtle.digest("SHA-256", data)\<close> is the platform's; the functions that use it
  take it as the parameter \<open>sha256\<close>.
\<close>

definition hashPassword :: "(8 word list \<Rightarrow> 256 word) \<Rightarrow> jstring \<Rightarrow> jstring" where
  "hashPassword sha256 password =
     (let data = encode password;
          hashArray = digest_bytes (sha256 data)
      in concat (map (\<lambda>b. padStart 2 0x30 (to_hex (unat b))) hashArray))"

subsection \<open>Resetting the password\<close>

definition update_password :: "jstring \<Rightarrow> jstring \<Rightarrow> int \<Rightarrow> database \<Rightarrow> database" where
  "update_password m h t db =
     db\<lparr>user_credentials :=
        map (\<lambda>c. if cred_mobile_number c = m then c\<lparr>password_hash := h, updated_at := t\<rparr> else c)
          (user_credentials db)\<rparr>"

definition mark_used :: "nat \<Rightarrow> database \<Rightarrow> database" where
  "mark_used i db =
     db\<lparr>password_reset_otps :=
        map (\<lambda>r. if otp_id r = i then r\<lparr>is_used := True\<rparr> else r) (password_reset_otps db)\<rparr>"

definition deactivate_sessions :: "nat \<Rightarrow> database \<Rightarrow> database" where
  "deactivate_sessions u db =
     db\<lparr>user_sessions :=
        map (\<lambda>s. if session_user_id s = u then s\<lparr>is_active := False\<rparr> else s) (user_sessions db)\<rparr>"

text \<open>\<open>new_password.length < 6\<close>: only a string has a length; for any other value the
  comparison is with \<open>undefined\<close> and is false.\<close>

fun shorter_than_6 :: "json \<Rightarrow> bool" where
  "shorter_than_6 (JStr s) = (length s < 6)"
| "shorter_than_6 _ = False"

definition reset_password ::
  "(8 word list \<Rightarrow> 256 word) \<Rightarrow> env \<Rightarrow> json \<Rightarrow> json \<Rightarrow> json \<Rightarrow> database \<Rightarrow> result" where
  "reset_password sha256 e mobile_number otp new_password db =
    (if \<not> truthy mobile_number \<or> \<not> truthy otp \<or> \<not> truthy new_password then
       \<lparr>resp = error_response 400 ''Mobile number, OTP, and new password are required'',
        db_after = db, calls = []\<rparr>
     else if shorter_than_6 new_password then
       \<lparr>resp = error_response 400 ''Password must be at least 6 characters'',
        db_after = db, calls = []\<rparr>
     else
       case find_valid_otp db (to_string mobile_number) (to_string otp) (now e) of
         None \<Rightarrow>
           \<lparr>resp = error_response 400 ''Invalid or expired OTP. Please request a new one.'',
            db_after = db, calls = [Select PasswordResetOtps]\<rparr>
       | Some otpRecord \<Rightarrow>
           let passwordHash = hashPassword sha256 (to_string new_password) in
           if update_error e then
             \<lparr>resp = error_response 500 ''Failed to update password'',
              db_after = db, calls = [Select PasswordResetOtps, Update UserCredentials]\<rparr>
           else
             let db1 = update_password (to_string mobile_number) passwordHash (update_time e) db;
                 db2 = (if mark_used_error e then db1 else mark_used (otp_id otpRecord) db1);
                 done = json_response 200
                   [(''success'', JBool True),
                    (''message'',
                     JStr (js ''Password reset successfully. Please sign in with your new password.''))]
             in case maybe_single (credentials_by_mobile db2 (to_string mobile_number)) of
                  None \<Rightarrow>
                    \<lparr>resp = done, db_after = db2,
                     calls = [Select PasswordResetOtps, Update UserCredentials, Update PasswordResetOtps,
                              Select UserCredentials]\<rparr>
                | Some credentials \<Rightarrow>
                    \<lparr>resp = done,
                     db_after = (if sessions_error e then db2
                                 else deactivate_sessions (cred_id credentials) db2),
                     calls = [Select PasswordResetOtps, Update UserCredentials, Update PasswordResetOtps,
                              Select UserCredentials, Update UserSessions]\<rparr>)"

subsection \<open>The request handler\<close>

record request_body =
  req_action :: json
  req_mobile_number :: json
  req_otp :: json
  req_new_password :: json

text \<open>\<open>json_body\<close> is \<open>None\<close> when \<open>await req.json()\<close> or the destructuring throws.\<close>

record http_request =
  http_method :: string
  json_body :: "request_body option"

definition serve :: "(8 word list \<Rightarrow> 256 word) \<Rightarrow> env \<Rightarrow> http_request \<Rightarrow> database \<Rightarrow> result" where
  "serve sha256 e req db =
    (if http_method req = ''OPTIONS'' then
       \<lparr>resp = \<lparr>status = 200, body = None\<rparr>, db_after = db, calls = []\<rparr>
     else if \<not> configured e then
       \<lparr>resp = error_response 500 ''Server not configured'', db_after = db, calls = []\<rparr>
     else
       case json_body req of
         None \<Rightarrow> \<lparr>resp = error_response 500 ''Internal server error'', db_after = db, calls = []\<rparr>
       | Some b \<Rightarrow>
           if req_action b = JStr (js ''request_otp'') then request_otp e (req_mobile_number b) db
           else if req_action b = JStr (js ''verify_otp'') then
             verify_otp e (req_mobile_number b) (req_otp b) db
           else if req_action b = JStr (js ''reset_password'') then
             reset_password sha256 e (req_mobile_number b) (req_otp b) (req_new_password b) db
           else \<lparr>resp = error_response 400 ''Invalid action'', db_after = db, calls = []\<rparr>)"

text \<open>A sequence of invocations, each on the table store the previous one left.\<close>

fun run :: "(8 word list \<Rightarrow> 256 word) \<Rightarrow> (env \<times> http_request) list \<Rightarrow> database \<Rightarrow> database" where
  "run sha256 [] db = db"
| "run sha256 ((e, req) # rest) db = run sha256 rest (db_after (serve sha256 e req db))"

section \<open>Jobs\<close>

text \<open>
  A job row as the views read it. Timestamps are milliseconds since the epoch
  (\<open>new Date(job.expires_at)\<close>); a column that is \<open>null\<close> is \<open>None\<close>.
\<close>

record job =
  job_id :: nat
  job_status :: string
  job_expires_at :: "int option"
  max_applications :: "int option"
  application_count :: "int option"
  creator_id :: nat
  has_applied :: bool

subsection \<open>The job detail view\<close>

text \<open>
  \<open>job.status === 'closed' || (job.expires_at && new Date(job.expires_at) < new Date()) ||
  (job.max_applications && job.application_count && job.application_count >= job.max_applications)\<close>,
  read as the condition it is used as; a number is truthy when it is not zero.
\<close>

definition isExpired :: "job \<Rightarrow> int \<Rightarrow> bool" where
  "isExpired j today =
     (job_status j = ''closed'' \<or>
      (case job_expires_at j of None \<Rightarrow> False | Some t \<Rightarrow> t < today) \<or>
      (case max_applications j of
         None \<Rightarrow> False
       | Some m \<Rightarrow> m \<noteq> 0 \<and>
           (case application_count j of None \<Rightarrow> False | Some c \<Rightarrow> c \<noteq> 0 \<and> m \<le> c)))"

record detail_view =
  badge_text :: string
  badge_variant :: string
  apply_button :: bool
  close_button :: bool
  applications_section :: bool

datatype page = LoadingSkeleton | JobNotFound | JobPage detail_view

text \<open>\<open>user\<close> is the id of the signed-in user, if any.\<close>

definition JobDetail :: "bool \<Rightarrow> job option \<Rightarrow> nat option \<Rightarrow> int \<Rightarrow> page" where
  "JobDetail loading the_job user today =
    (if loading then LoadingSkeleton
     else case the_job of
       None \<Rightarrow> JobNotFound
     | Some j \<Rightarrow>
         let expired = isExpired j today;
             isCreator = (user = Some (creator_id j))
         in JobPage
              \<lparr>badge_text = (if expired then ''Offer Ended'' else ''Open''),
               badge_variant = (if expired then ''secondary'' else ''default''),
               apply_button = (\<not> expired \<and> \<not> isCreator \<and> user \<noteq> None),
               close_button = (isCreator \<and> \<not> expired),
               applications_section = isCreator\<rparr>)"

subsection \<open>Applying to a job\<close>

record application =
  app_job_id :: nat
  applicant_id :: nat
  app_message :: "jstring option"

record store =
  jobs :: "job list"
  job_applications :: "application list"

record pg_error =
  code :: string
  message :: string

datatype toast = ToastError string | ToastSuccess string

text \<open>
  What one submission takes from outside the code: the time, the error the client reports
  when the job lookup does not give exactly one row, and an error of the store on the
  insert other than the conflict, if there is one.
\<close>

record apply_env =
  today :: int
  lookup_error :: pg_error
  insert_fault :: "pg_error option"

text \<open>
  Modelled from the spec: the table definition is not part of the sources. The store
  keeps one application per (job, applicant) pair and reports a second one as the conflict
  error \<open>23505\<close>.
\<close>

definition insert_application :: "apply_env \<Rightarrow> application \<Rightarrow> store \<Rightarrow> pg_error option \<times> store" where
  "insert_application e a st =
    (case insert_fault e of
       Some err \<Rightarrow> (Some err, st)
     | None \<Rightarrow>
         if \<exists>b \<in> set (job_applications st). app_job_id b = app_job_id a \<and> applicant_id b = applicant_id a
         then (Some \<lparr>code = ''23505'', message = ''duplicate key value violates unique constraint''\<rparr>, st)
         else (None, st\<lparr>job_applications := job_applications st @ [a]\<rparr>))"

text \<open>The white space and line terminators \<open>String.prototype.trim\<close> removes.\<close>

definition is_space :: "16 word \<Rightarrow> bool" where
  "is_space c =
     (c \<in> {0x09, 0x0A, 0x0B, 0x0C, 0x0D, 0x20, 0xA0, 0x1680, 0x2028, 0x2029, 0x202F, 0x205F, 0x3000, 0xFEFF}
      \<or> (0x2000 \<le> c \<and> c \<le> 0x200A))"

definition trim :: "jstring \<Rightarrow> jstring" where
  "trim s = rev (dropWhile is_space (rev (dropWhile is_space s)))"

record dialog =
  dialog_open :: bool
  dialog_loading :: bool
  dialog_message :: jstring

record apply_result =
  toasts :: "toast list"
  dialog_after :: dialog
  onApplied_called :: bool
  store_after :: store

text \<open>The \<open>catch\<close> block: \<open>toast.error(error.message || 'Failed to apply')\<close>.\<close>

definition caught :: "pg_error \<Rightarrow> toast" where
  "caught err = ToastError (if message err = [] then ''Failed to apply'' else message err)"

definition handleApply :: "apply_env \<Rightarrow> nat option \<Rightarrow> nat \<Rightarrow> dialog \<Rightarrow> store \<Rightarrow> apply_result" where
  "handleApply e user the_job_id d st =
    (case user of
       None \<Rightarrow>
         \<lparr>toasts = [ToastError ''Please login to apply''], dialog_after = d,
          onApplied_called = False, store_after = st\<rparr>
     | Some uid \<Rightarrow>
        (case maybe_single (filter (\<lambda>j. job_id j = the_job_id) (jobs st)) of
           None \<Rightarrow>
             \<lparr>toasts = [caught (lookup_error e)], dialog_after = d\<lparr>dialog_loading := False\<rparr>,
              onApplied_called = False, store_after = st\<rparr>
         | Some jobData \<Rightarrow>
             if job_status jobData \<noteq> ''open'' then
               \<lparr>toasts = [ToastError ''This job is no longer accepting applications''],
                dialog_after = d\<lparr>dialog_open := False, dialog_loading := False\<rparr>,
                onApplied_called = True, store_after = st\<rparr>
             else if (case job_expires_at jobData of None \<Rightarrow> False | Some t \<Rightarrow> t < today e) then
               \<lparr>toasts = [ToastError ''This job has expired''],
                dialog_after = d\<lparr>dialog_open := False, dialog_loading := False\<rparr>,
                onApplied_called = True, store_after = st\<rparr>
             else
               case insert_application e
                      \<lparr>app_job_id = the_job_id, applicant_id = uid,
                       app_message = (if trim (dialog_message d) = [] then None
                                      else Some (trim (dialog_message d)))\<rparr> st of
                 (Some err, st') \<Rightarrow>
                   \<lparr>toasts = [if code err = ''23505'' then ToastError ''You have already applied to this job''
                               else caught err],
                    dialog_after = d\<lparr>dialog_loading := False\<rparr>,
                    onApplied_called = False, store_after = st'\<rparr>
               | (None, st') \<Rightarrow>
                   \<lparr>toasts = [ToastSuccess ''Application submitted successfully!''],
                    dialog_after = \<lparr>dialog_open = False, dialog_loading = False, dialog_message = []\<rparr>,
                    onApplied_called = True, store_after = st'\<rparr>))"

section \<open>Sequences of calls and the state of the OTP table\<close>

text \<open>Verifying the same pair again and again, one invocation after the other.\<close>

fun verify_many :: "env list \<Rightarrow> json \<Rightarrow> json \<Rightarrow> database \<Rightarrow> response list \<times> database" where
  "verify_many [] m c db = ([], db)"
| "verify_many (e # es) m c db =
     (let r = verify_otp e m c db; rest = verify_many es m c (db_after r)
      in (resp r # fst rest, snd rest))"


text \<open>
  Every row of the OTP table with this mobile number and code is used, or expired before
  the time \<open>t\<close>.
\<close>

definition no_live :: "jstring \<Rightarrow> jstring \<Rightarrow> int \<Rightarrow> database \<Rightarrow> bool" where
  "no_live m c t db =
     list_all (\<lambda>r. otp_mobile_number r = m \<and> otp_code r = c \<longrightarrow> is_used r \<or> expires_at r < t)
       (password_reset_otps db)"

text \<open>The invocation is a \<open>request_otp\<close> for this mobile number that draws this code.\<close>

definition reissues :: "jstring \<Rightarrow> jstring \<Rightarrow> env \<Rightarrow> http_request \<Rightarrow> bool" where
  "reissues m c e req =
     (case json_body req of
        None \<Rightarrow> False
      | Some b \<Rightarrow> req_action b = JStr (js ''request_otp'') \<and> to_string (req_mobile_number b) = m \<and>
          generateOTP (random e) = c)"


section \<open>Concrete inputs\<close>

definition demo_db :: database where
  "demo_db =
     \<lparr>user_credentials =
        [\<lparr>cred_id = 7, cred_mobile_number = js ''9876543210'', password_hash = js ''old'', updated_at = 0\<rparr>],
      password_reset_otps = [],
      user_sessions = [\<lparr>session_user_id = 7, is_active = True\<rparr>]\<rparr>"

definition demo_env :: env where
  "demo_env =
     \<lparr>configured = True, now = 1000, update_time = 1001, random = 1 / 2, new_row_id = 1,
      delete_error = False, insert_error = False, update_error = False, mark_used_error = False,
      sessions_error = False\<rparr>"

definition demo_mobile :: json where
  "demo_mobile = JStr (js ''9876543210'')"

definition demo_row :: otp_row where
  "demo_row = \<lparr>otp_id = 1, otp_mobile_number = js ''9876543210'', otp_code = js ''550000'',
               expires_at = 601000, is_used = False\<rparr>"

definition demo_otp_db :: database where
  "demo_otp_db = demo_db\<lparr>password_reset_otps := [demo_row]\<rparr>"

definition demo_late_env :: env where
  "demo_late_env = demo_env\<lparr>now := 700000\<rparr>"

text \<open>A second request for the same number, later, whose delete call fails.\<close>

definition demo_retry_env :: env where
  "demo_retry_env = demo_env\<lparr>now := 700000, new_row_id := 2, delete_error := True\<rparr>"

definition demo_row2 :: otp_row where
  "demo_row2 = \<lparr>otp_id = 2, otp_mobile_number = js ''9876543210'', otp_code = js ''550000'',
                expires_at = 1300000, is_used = False\<rparr>"

definition demo_code :: json where
  "demo_code = JStr (js ''550000'')"

definition demo_password :: json where
  "demo_password = JStr (js ''secret1'')"

definition demo_sha256 :: "8 word list \<Rightarrow> 256 word" where
  "demo_sha256 bs = 0"


definition demo_request_req :: http_request where
  "demo_request_req =
     \<lparr>http_method = ''POST'',
      json_body = Some \<lparr>req_action = JStr (js ''request_otp''), req_mobile_number = demo_mobile,
                        req_otp = JUndefined, req_new_password = JUndefined\<rparr>\<rparr>"

definition demo_verify_req :: http_request where
  "demo_verify_req =
     \<lparr>http_method = ''POST'',
      json_body = Some \<lparr>req_action = JStr (js ''verify_otp''), req_mobile_number = demo_mobile,
                        req_otp = demo_code, req_new_password = JUndefined\<rparr>\<rparr>"

definition demo_reset_req :: http_request where
  "demo_reset_req =
     \<lparr>http_method = ''POST'',
      json_body = Some \<lparr>req_action = JStr (js ''reset_password''), req_mobile_number = demo_mobile,
                        req_otp = demo_code, req_new_password = demo_password\<rparr>\<rparr>"

definition demo_job :: job where
  "demo_job =
     \<lparr>job_id = 1, job_status = ''open'', job_expires_at = Some 500, max_applications = None,
      application_count = None, creator_id = 2, has_applied = False\<rparr>"

definition demo_store :: store where
  "demo_store = \<lparr>jobs = [demo_job\<lparr>job_expires_at := Some 5000\<rparr>], job_applications = []\<rparr>"

definition demo_apply_env :: apply_env where
  "demo_apply_env =
     \<lparr>today = 1000, lookup_error = \<lparr>code = ''PGRST116'', message = ''no rows''\<rparr>, insert_fault = None\<rparr>"

definition demo_dialog :: dialog where
  "demo_dialog = \<lparr>dialog_open = True, dialog_loading = False, dialog_message = js ''hello''\<rparr>"

definition demo_fault :: pg_error where
  "demo_fault = \<lparr>code = ''42501'', message = ''permission denied''\<rparr>"

section \<open>Rounding to a double\<close>

lemma log2_nat_bounds: "0 < n \<Longrightarrow> 2 ^ log2_nat n \<le> n \<and> n < 2 ^ Suc (log2_nat n)"
proof (induction n rule: log2_nat.induct)
  case (1 n)
  show ?case
  proof (cases "n < 2")
    case True
    with 1(2) show ?thesis by (simp add: log2_nat.simps [of n])
  next
    case False
    then have "0 < n div 2" by simp
    with 1(1) False have ih: "2 ^ log2_nat (n div 2) \<le> n div 2" "n div 2 < 2 ^ Suc (log2_nat (n div 2))"
      by simp_all
    from ih False show ?thesis
      by (simp add: log2_nat.simps [of n]) linarith
  qed
qed

lemma floor_log2_bounds:
  assumes "0 < x"
  shows "2 powi floor_log2 x \<le> x \<and> x < 2 powi (floor_log2 x + 1)"
proof -
  obtain p q where pq: "quotient_of x = (p, q)" by (cases "quotient_of x")
  then have q: "0 < q" by (rule quotient_of_denom_pos)
  have x: "x = of_int p / of_int q" using pq by (rule quotient_of_div)
  with assms q have p: "0 < p" by (simp add: zero_less_divide_iff)
  define a where "a = log2_nat (nat p)"
  define b where "b = log2_nat (nat q)"
  have pa: "2 ^ a \<le> nat p" "nat p < 2 ^ Suc a"
    using log2_nat_bounds [of "nat p"] p by (simp_all add: a_def)
  have qb: "2 ^ b \<le> nat q" "nat q < 2 ^ Suc b"
    using log2_nat_bounds [of "nat q"] q by (simp_all add: b_def)
  have pr: "(2::rat) ^ a \<le> of_int p" "of_int p < (2::rat) ^ Suc a"
  proof -
    have "of_nat (2 ^ a) \<le> (of_nat (nat p) :: rat)" using pa(1) by (simp only: of_nat_le_iff)
    then show "(2::rat) ^ a \<le> of_int p" using p by simp
    have "(of_nat (nat p) :: rat) < of_nat (2 ^ Suc a)" using pa(2) by (simp only: of_nat_less_iff)
    then show "of_int p < (2::rat) ^ Suc a" using p by simp
  qed
  have qr: "(2::rat) ^ b \<le> of_int q" "of_int q < (2::rat) ^ Suc b"
  proof -
    have "of_nat (2 ^ b) \<le> (of_nat (nat q) :: rat)" using qb(1) by (simp only: of_nat_le_iff)
    then show "(2::rat) ^ b \<le> of_int q" using q by simp
    have "(of_nat (nat q) :: rat) < of_nat (2 ^ Suc b)" using qb(2) by (simp only: of_nat_less_iff)
    then show "of_int q < (2::rat) ^ Suc b" using q by simp
  qed
  have qpos: "(0::rat) < of_int q" using q by simp
  have hi: "x < 2 powi (int a - int b + 1)"
  proof -
    have "x < 2 ^ Suc a / 2 ^ b"
      unfolding x using pr(2) qr(1) qpos p
      by (intro frac_less) simp_all
    also have "\<dots> = 2 powi (int a - int b + 1)"
      by (simp add: power_int_diff power_int_add)
    finally show ?thesis .
  qed
  have lo: "2 powi (int a - int b - 1) \<le> x"
  proof -
    have "(2::rat) ^ a / 2 ^ Suc b \<le> x"
      unfolding x using pr(1) qr(2) qpos p
      by (intro frac_le) simp_all
    moreover have "(2::rat) ^ a / 2 ^ Suc b = 2 powi (int a - int b - 1)"
      by (simp add: power_int_diff)
    ultimately show ?thesis by simp
  qed
  have e: "floor_log2 x = (if 2 powi (int a - int b) \<le> x then int a - int b else int a - int b - 1)"
    by (simp add: floor_log2_def pq a_def b_def)
  show ?thesis
    using hi lo by (auto simp: e not_le)
qed

lemma two_powi_mono: "a \<le> b \<Longrightarrow> (2::rat) powi a \<le> 2 powi b"
  by (rule power_int_increasing) simp_all

lemma floor_log2_unique:
  assumes "2 powi e \<le> x" "x < 2 powi (e + 1)"
  shows "floor_log2 x = e"
proof -
  have pos: "0 < x"
  proof -
    have "(0::rat) < 2 powi e" by simp
    with assms(1) show ?thesis by linarith
  qed
  note b = floor_log2_bounds [OF pos]
  show ?thesis
  proof (rule ccontr)
    assume ne: "floor_log2 x \<noteq> e"
    show False
    proof (cases "floor_log2 x < e")
      case True
      then have "(2::rat) powi (floor_log2 x + 1) \<le> 2 powi e" by (intro two_powi_mono) simp
      with b assms(1) show False by linarith
    next
      case False
      with ne have "(2::rat) powi (e + 1) \<le> 2 powi floor_log2 x" by (intro two_powi_mono) simp
      with b assms(2) show False by linarith
    qed
  qed
qed

lemma floor_log2_mono:
  assumes "0 < x" "x \<le> y"
  shows "floor_log2 x \<le> floor_log2 y"
proof (rule ccontr)
  assume "\<not> floor_log2 x \<le> floor_log2 y"
  then have "(2::rat) powi (floor_log2 y + 1) \<le> 2 powi floor_log2 x" by (intro two_powi_mono) simp
  moreover have "0 < y" using assms by linarith
  ultimately show False
    using floor_log2_bounds [OF assms(1)] floor_log2_bounds [OF \<open>0 < y\<close>] assms(2) by linarith
qed

lemma round_even_of_int [simp]: "round_even (of_int n) = n"
  by (simp add: round_even_def)

lemma round_even_range: "\<lfloor>q\<rfloor> \<le> round_even q \<and> round_even q \<le> \<lfloor>q\<rfloor> + 1"
  by (simp add: round_even_def Let_def)

lemma round_even_mono:
  assumes "q \<le> q'"
  shows "round_even q \<le> round_even q'"
proof (cases "\<lfloor>q\<rfloor> = \<lfloor>q'\<rfloor>")
  case True
  with assms show ?thesis by (auto simp: round_even_def Let_def)
next
  case False
  moreover have "\<lfloor>q\<rfloor> \<le> \<lfloor>q'\<rfloor>" using assms by (rule floor_mono)
  ultimately have "\<lfloor>q\<rfloor> + 1 \<le> \<lfloor>q'\<rfloor>" by simp
  with round_even_range [of q] round_even_range [of q'] show ?thesis by linarith
qed

lemma round_even_down: "of_int f \<le> q \<Longrightarrow> q - of_int f < 1 / 2 \<Longrightarrow> round_even q = f"
proof -
  assume a: "of_int f \<le> q" "q - of_int f < 1 / 2"
  then have "\<lfloor>q\<rfloor> = f" by (intro floor_unique) simp_all
  with a show ?thesis by (simp add: round_even_def)
qed

lemma ulp_pos [simp]: "0 < ulp a"
  by (simp add: ulp_def)

lemma ulp_nonneg [simp]: "0 \<le> ulp a"
  by (simp add: ulp_def)

lemma div_ulp_mono: "x \<le> y \<Longrightarrow> x / ulp a \<le> y / ulp a"
  by (rule divide_right_mono) simp_all

lemma ulp_eq: "2 powi e \<le> x \<Longrightarrow> x < 2 powi (e + 1) \<Longrightarrow> - 1022 \<le> e \<Longrightarrow> ulp x = 2 powi (e - 52)"
  by (simp add: ulp_def floor_log2_unique)

lemma to_double_nonneg: "0 \<le> x \<Longrightarrow> to_double x = of_int (round_even (x / ulp x)) * ulp x"
  by (cases "x = 0") (simp_all add: to_double_def round_even_def)

lemma to_double_zero [simp]: "to_double 0 = 0"
  by (simp add: to_double_def)

lemma to_double_ge_0: "0 \<le> x \<Longrightarrow> 0 \<le> to_double x"
proof -
  assume x: "0 \<le> x"
  then have "0 / ulp x \<le> x / ulp x" by (rule div_ulp_mono)
  then have "0 \<le> x / ulp x" by simp
  then have "round_even 0 \<le> round_even (x / ulp x)" by (rule round_even_mono)
  then show ?thesis using x by (simp add: to_double_nonneg round_even_def)
qed

lemma to_double_mono:
  assumes "0 \<le> x" "x \<le> y"
  shows "to_double x \<le> to_double y"
proof (cases "x = 0")
  case True
  with assms show ?thesis by (simp add: to_double_ge_0)
next
  case False
  with assms have x: "0 < x" and y: "0 < y" by simp_all
  define ex where "ex = max (floor_log2 x) (- 1022)"
  define ey where "ey = max (floor_log2 y) (- 1022)"
  have ux: "ulp x = 2 powi (ex - 52)" and uy: "ulp y = 2 powi (ey - 52)"
    by (simp_all add: ulp_def ex_def ey_def)
  have le: "ex \<le> ey"
    using floor_log2_mono [OF x assms(2)] by (simp add: ex_def ey_def)
  show ?thesis
  proof (cases "ex = ey")
    case True
    then have u: "ulp x = ulp y" by (simp add: ux uy)
    have "x / ulp y \<le> y / ulp y" using assms(2) by (rule div_ulp_mono)
    then have "round_even (x / ulp y) \<le> round_even (y / ulp y)" by (rule round_even_mono)
    then have "(of_int (round_even (x / ulp y)) :: rat) \<le> of_int (round_even (y / ulp y))" by simp
    then have "of_int (round_even (x / ulp y)) * ulp y \<le> of_int (round_even (y / ulp y)) * ulp y"
      by (rule mult_right_mono) simp
    then show ?thesis using x y by (simp add: to_double_nonneg u)
  next
    case False
    with le have lt: "ex < ey" by simp
    then have ey: "ey = floor_log2 y" unfolding ey_def ex_def by linarith
    have "x < 2 powi (floor_log2 x + 1)" using floor_log2_bounds [OF x] by simp
    also have "\<dots> \<le> 2 powi (ex + 1)" by (intro two_powi_mono) (simp add: ex_def)
    finally have xb: "x \<le> 2 powi (ex + 1)" by simp
    have "x / ulp x \<le> 2 powi (ex + 1) / ulp x" using xb by (rule div_ulp_mono)
    also have "\<dots> = of_int (2 ^ 53)" by (simp add: ux power_int_diff power_int_add)
    finally have "round_even (x / ulp x) \<le> round_even (of_int (2 ^ 53))" by (rule round_even_mono)
    then have "(of_int (round_even (x / ulp x)) :: rat) \<le> of_int (2 ^ 53)"
      by (simp only: round_even_of_int of_int_le_iff)
    then have "of_int (round_even (x / ulp x)) * ulp x \<le> of_int (2 ^ 53) * ulp x"
      by (rule mult_right_mono) simp
    also have "\<dots> = 2 powi (ex + 1)" by (simp add: ux power_int_diff power_int_add)
    finally have dx: "to_double x \<le> 2 powi (ex + 1)" using x by (simp add: to_double_nonneg)
    have "of_int (2 ^ 52) = 2 powi ey / ulp y" by (simp add: uy power_int_diff)
    also have "\<dots> \<le> y / ulp y" using floor_log2_bounds [OF y] by (intro div_ulp_mono) (simp add: ey)
    finally have "round_even (of_int (2 ^ 52)) \<le> round_even (y / ulp y)" by (rule round_even_mono)
    then have "(of_int (2 ^ 52) :: rat) \<le> of_int (round_even (y / ulp y))"
      by (simp only: round_even_of_int of_int_le_iff)
    then have a: "of_int (2 ^ 52) * ulp y \<le> of_int (round_even (y / ulp y)) * ulp y"
      by (rule mult_right_mono) simp
    have b: "of_int (2 ^ 52) * ulp y = 2 powi ey" by (simp add: uy power_int_diff)
    have c: "to_double y = of_int (round_even (y / ulp y)) * ulp y"
      using y by (simp add: to_double_nonneg)
    from a have dy: "2 powi ey \<le> to_double y" unfolding b c .
    have "(2::rat) powi (ex + 1) \<le> 2 powi ey" using lt by (intro two_powi_mono) simp
    with dx dy show ?thesis by linarith
  qed
qed

text \<open>
  The double nearest to \<open>x\<close>, from the exponent of \<open>x\<close> and the multiple of its unit in
  the last place just below it.
\<close>

lemma to_double_round:
  assumes "2 powi e \<le> x" "x < 2 powi (e + 1)" "- 1022 \<le> e"
    and "round_even (x / 2 powi (e - 52)) = n"
  shows "to_double x = of_int n * 2 powi (e - 52)"
proof -
  have pos: "0 \<le> x"
  proof -
    have "(0::rat) < 2 powi e" by simp
    with assms(1) show ?thesis by linarith
  qed
  from assms(4) show ?thesis
    using pos by (simp add: to_double_nonneg ulp_eq [OF assms(1,2,3)])
qed

lemma to_double_value:
  assumes "2 powi e \<le> x" "x < 2 powi (e + 1)" "- 1022 \<le> e"
    and "of_int n \<le> x / 2 powi (e - 52)" "x / 2 powi (e - 52) - of_int n < 1 / 2"
  shows "to_double x = of_int n * 2 powi (e - 52)"
  using assms(1,2,3) round_even_down [OF assms(4,5)] by (rule to_double_round)

lemmas powi_simps = power_int_def power_one_over

lemma to_double_100000: "to_double 100000 = 100000"
proof -
  have "to_double 100000 = of_int (100000 * 2 ^ 36) * 2 powi (16 - 52)"
    by (rule to_double_value) (simp_all add: powi_simps)
  also have "\<dots> = 100000" by (simp add: powi_simps)
  finally show ?thesis .
qed

lemma to_double_450000: "to_double 450000 = 450000"
proof -
  have "to_double 450000 = of_int (450000 * 2 ^ 34) * 2 powi (18 - 52)"
    by (rule to_double_value) (simp_all add: powi_simps)
  also have "\<dots> = 450000" by (simp add: powi_simps)
  finally show ?thesis .
qed

lemma to_double_550000: "to_double 550000 = 550000"
proof -
  have "to_double 550000 = of_int (550000 * 2 ^ 33) * 2 powi (19 - 52)"
    by (rule to_double_value) (simp_all add: powi_simps)
  also have "\<dots> = 550000" by (simp add: powi_simps)
  finally show ?thesis .
qed

lemma to_double_top: "to_double (1000000 - 1 / 2 ^ 33) = 1000000 - 1 / 2 ^ 33"
proof -
  have "to_double (1000000 - 1 / 2 ^ 33) = of_int (1000000 * 2 ^ 33 - 1) * 2 powi (19 - 52)"
    by (rule to_double_value) (simp_all add: powi_simps)
  also have "\<dots> = 1000000 - 1 / 2 ^ 33" by (simp add: powi_simps)
  finally show ?thesis .
qed

lemma to_double_product_top: "to_double ((1 - 1 / 2 ^ 53) * 900000) = 900000 - 1 / 2 ^ 33"
proof -
  have "to_double ((1 - 1 / 2 ^ 53) * 900000) = of_int (900000 * 2 ^ 33 - 1) * 2 powi (19 - 52)"
    by (rule to_double_value) (simp_all add: powi_simps)
  also have "\<dots> = 900000 - 1 / 2 ^ 33" by (simp add: powi_simps)
  finally show ?thesis .
qed

text \<open>The largest double below 1 is \<open>1 - 2^-53\<close>.\<close>

lemma is_double_below_1:
  assumes "is_double r" "0 \<le> r" "r < 1"
  shows "r \<le> 1 - 1 / 2 ^ 53"
proof (rule ccontr)
  assume "\<not> r \<le> 1 - 1 / 2 ^ 53"
  then have big: "1 - 1 / 2 ^ 53 < r" by simp
  have u: "ulp r = 2 powi (- 1 - 52)"
    using big assms(3) by (intro ulp_eq) (simp_all add: powi_simps)
  define k where "k = round_even (r / ulp r)"
  have "of_int k * ulp r = r"
    using assms(1,2) by (simp add: is_double_def to_double_nonneg k_def)
  then have r: "r = of_int k / 2 ^ 53"
    by (simp add: u powi_simps field_simps)
  from big have "(2 ^ 53 - 1 :: rat) < of_int k" unfolding r by (simp add: field_simps)
  then have "(of_int (2 ^ 53 - 1) :: rat) < of_int k" by simp
  then have lo: "2 ^ 53 - 1 < k" by (simp only: of_int_less_iff)
  from assms(3) have "(of_int k :: rat) < of_int (2 ^ 53)" unfolding r by (simp add: field_simps)
  then have "k < 2 ^ 53" by (simp only: of_int_less_iff)
  with lo show False by simp
qed

lemma is_double_half: "is_double (1 / 2)"
proof -
  have "to_double (1 / 2) = of_int (2 ^ 52) * 2 powi (- 1 - 52)"
    by (rule to_double_value) (simp_all add: powi_simps)
  also have "\<dots> = 1 / 2" by (simp add: powi_simps)
  finally show ?thesis by (simp add: is_double_def)
qed

lemma random_code_range:
  assumes "is_double r" "0 \<le> r" "r < 1"
  shows "100000 \<le> \<lfloor>to_double (100000 + to_double (r * 900000))\<rfloor> \<and>
         \<lfloor>to_double (100000 + to_double (r * 900000))\<rfloor> < 1000000"
proof -
  let ?p = "to_double (r * 900000)"
  have p0: "0 \<le> ?p" using assms(2) by (intro to_double_ge_0) simp
  have "r * 900000 \<le> (1 - 1 / 2 ^ 53) * 900000"
    using is_double_below_1 [OF assms] by simp
  then have "?p \<le> to_double ((1 - 1 / 2 ^ 53) * 900000)"
    using assms(2) by (intro to_double_mono) simp_all
  then have p1: "?p \<le> 900000 - 1 / 2 ^ 33" by (simp only: to_double_product_top)
  have "to_double 100000 \<le> to_double (100000 + ?p)"
    using p0 by (intro to_double_mono) simp_all
  then have lo: "100000 \<le> to_double (100000 + ?p)" by (simp only: to_double_100000)
  have "to_double (100000 + ?p) \<le> to_double (1000000 - 1 / 2 ^ 33)"
    using p0 p1 by (intro to_double_mono) simp_all
  then have hi: "to_double (100000 + ?p) \<le> 1000000 - 1 / 2 ^ 33" by (simp only: to_double_top)
  have "(100000::int) \<le> \<lfloor>to_double (100000 + ?p)\<rfloor>"
    using lo by (simp add: le_floor_iff)
  moreover have "to_double (100000 + ?p) < 1000000"
  proof -
    have "(1000000::rat) - 1 / 2 ^ 33 < 1000000" by simp
    with hi show ?thesis by linarith
  qed
  then have "\<lfloor>to_double (100000 + ?p)\<rfloor> < 1000000" by (simp add: floor_less_iff)
  ultimately show ?thesis by simp
qed

section \<open>Decimal notation\<close>

lemma digit_unit_is_digit: "k < 10 \<Longrightarrow> is_digit (digit_unit k)"
proof -
  assume k: "k < 10"
  have "unat (digit_unit k) = 48 + k"
    using k by (simp add: digit_unit_def unat_of_nat del: of_nat_add)
  then show ?thesis
    using k by (simp add: is_digit_def word_le_nat_alt)
qed

lemma to_decimal_digits: "list_all is_digit (to_decimal n)"
proof (induction n rule: to_decimal.induct)
  case (1 n)
  show ?case
  proof (cases "n < 10")
    case True
    then show ?thesis by (simp add: to_decimal.simps [of n] digit_unit_is_digit)
  next
    case False
    with 1 show ?thesis by (simp add: to_decimal.simps [of n] digit_unit_is_digit)
  qed
qed

lemma to_decimal_length:
  "10 ^ k \<le> n \<Longrightarrow> n < 10 ^ Suc k \<Longrightarrow> length (to_decimal n) = Suc k"
proof (induction k arbitrary: n)
  case 0
  then show ?case by (subst to_decimal.simps) simp
next
  case (Suc k)
  have big: "\<not> n < 10"
  proof -
    have "(10::nat) \<le> 10 ^ Suc k" by simp
    from this Suc.prems(1) have "10 \<le> n" by (rule le_trans)
    then show ?thesis by simp
  qed
  have lo: "10 ^ k \<le> n div 10"
    using div_le_mono [OF Suc.prems(1), of 10] by simp
  have hi: "n div 10 < 10 ^ Suc k"
    using Suc.prems(2) by (intro less_mult_imp_div_less) (simp add: mult.commute)
  show ?case
    using big Suc.IH [OF lo hi] by (subst to_decimal.simps) simp
qed

lemma generateOTP_six_digits:
  assumes "is_double r" "0 \<le> r" "r < 1"
  shows "length (generateOTP r) = 6 \<and> list_all is_digit (generateOTP r)"
proof -
  let ?n = "nat \<lfloor>to_double (100000 + to_double (r * 900000))\<rfloor>"
  from random_code_range [OF assms] have "100000 \<le> ?n" "?n < 1000000" by linarith+
  with to_decimal_length [of 5 ?n] show ?thesis
    by (simp add: generateOTP_def to_decimal_digits)
qed

lemma generateOTP_half: "generateOTP (1 / 2) = js ''550000''"
  by (simp add: generateOTP_def to_double_450000 to_double_550000 to_decimal.simps js_def digit_unit_def)

lemma generateOTP_zero: "generateOTP 0 = js ''100000''"
  by (simp add: generateOTP_def to_double_100000 to_decimal.simps js_def digit_unit_def)

text \<open>
  A random number at which the rounding of the product decides the code: the exact
  value of \<open>100000 + r * 900000\<close> is just below 124617, the doubles give 124617.
\<close>

lemma generateOTP_rounded: "generateOTP (123183457807755 / 2 ^ 52) = js ''124617''"
proof -
  let ?x = "123183457807755 / 2 ^ 52 * 900000 :: rat"
  have "\<lfloor>?x / 2 powi (14 - 52)\<rfloor> = 6766669435240447"
    by (rule floor_unique) (simp_all add: powi_simps)
  then have re: "round_even (?x / 2 powi (14 - 52)) = 6766669435240448"
    by (simp add: round_even_def powi_simps)
  have "to_double ?x = of_int 6766669435240448 * 2 powi (14 - 52)"
    by (rule to_double_round [OF _ _ _ re]) (simp_all add: powi_simps)
  also have "\<dots> = 24617" by (simp add: powi_simps)
  finally have p: "to_double ?x = 24617" .
  have "to_double 124617 = of_int (124617 * 2 ^ 36) * 2 powi (16 - 52)"
    by (rule to_double_value) (simp_all add: powi_simps)
  also have "\<dots> = 124617" by (simp add: powi_simps)
  finally have s: "to_double 124617 = 124617" .
  have "generateOTP (123183457807755 / 2 ^ 52) = to_decimal (nat \<lfloor>to_double (100000 + to_double ?x)\<rfloor>)"
    by (simp only: generateOTP_def)
  also have "\<dots> = js ''124617''"
    unfolding p by (simp add: s to_decimal.simps js_def digit_unit_def)
  finally show ?thesis .
qed

lemmas eval_simps = js_def digit_unit_def to_decimal.simps number_to_string_def ten_digits_def
  is_digit_def credentials_by_mobile_def json_response_def error_response_def Let_def
  generateOTP_half generateOTP_zero delete_otps_def insert_otp_def find_valid_otp_def

section \<open>Requesting an OTP\<close>

lemma request_otp_success:
  assumes "status (resp (request_otp e v db)) = 200"
  shows "request_otp e v db =
    \<lparr>resp = json_response 200
       [(''success'', JBool True), (''message'', JStr (js ''OTP sent successfully'')),
        (''debug_otp'', JStr (generateOTP (random e)))],
     db_after = insert_otp (new_row_id e) (to_string v) (generateOTP (random e)) (now e + 600000)
                  (if delete_error e then db else delete_otps (to_string v) db),
     calls = [Select UserCredentials, Delete PasswordResetOtps, Insert PasswordResetOtps]\<rparr>"
  using assms
  by (auto simp: request_otp_def error_response_def json_response_def Let_def
      split: if_splits option.splits)

lemma demo_request_ok: "status (resp (request_otp demo_env demo_mobile demo_db)) = 200"
  by (simp add: request_otp_def demo_env_def demo_db_def demo_mobile_def eval_simps)

lemma rows_after_insert:
  "filter (\<lambda>r. otp_mobile_number r = m) (password_reset_otps (insert_otp i m c t (delete_otps m d))) =
     [\<lparr>otp_id = i, otp_mobile_number = m, otp_code = c, expires_at = t, is_used = False\<rparr>]"
  by (simp add: insert_otp_def delete_otps_def)

text \<open>
  C1, as amended. A value that is falsy (absent, \<open>null\<close>, \<open>false\<close>, \<open>0\<close>, the empty
  string) or whose string form is not exactly ten decimal digits gets the 400 response,
  and no call to the table store is made. A value whose string form is exactly ten
  decimal digits passes and the credential lookup is the first call; every string of ten
  decimal digits is such a value. The handler has no check of the type of a field, so a
  number of ten digits passes like the string.
\<close>

theorem request_otp_validation:
  "(\<not> truthy v \<or> \<not> ten_digits (to_string v) \<longrightarrow>
      resp (request_otp e v db) = error_response 400 ''Please enter a valid 10-digit mobile number'' \<and>
      db_after (request_otp e v db) = db \<and> calls (request_otp e v db) = []) \<and>
   (truthy v \<and> ten_digits (to_string v) \<longrightarrow>
      status (resp (request_otp e v db)) \<noteq> 400 \<and>
      calls (request_otp e v db) \<noteq> [] \<and> hd (calls (request_otp e v db)) = Select UserCredentials) \<and>
   (ten_digits s \<longrightarrow> truthy (JStr s) \<and> ten_digits (to_string (JStr s)))"
  by (auto simp: request_otp_def error_response_def json_response_def Let_def ten_digits_def
      split: option.splits)

theorem request_otp_validation_witness:
  "resp (request_otp demo_env (JStr (js ''98765'')) demo_db) =
     error_response 400 ''Please enter a valid 10-digit mobile number'' \<and>
   calls (request_otp demo_env (JStr (js ''98765'')) demo_db) = [] \<and>
   status (resp (request_otp demo_env (JStr (js ''9876543210'')) demo_db)) \<noteq> 400 \<and>
   hd (calls (request_otp demo_env (JStr (js ''9876543210'')) demo_db)) = Select UserCredentials"
proof -
  have bad: "\<not> ten_digits (to_string (JStr (js ''98765'')))"
    by (simp add: ten_digits_def js_def)
  have good: "ten_digits (js ''9876543210'')"
    by (simp add: ten_digits_def js_def is_digit_def)
  show ?thesis
    using request_otp_validation [of "JStr (js ''98765'')" demo_env demo_db "js ''9876543210''"]
      request_otp_validation [of "JStr (js ''9876543210'')" demo_env demo_db "js ''9876543210''"]
      bad good
    by simp
qed

text \<open>
  C1 as stated fails: the number 9876543210 is not a string, and the request is not
  answered with 400; the table store is read and written.
\<close>

theorem request_otp_number_accepted:
  "status (resp (request_otp demo_env (JNum 9876543210) demo_db)) = 200 \<and>
   calls (request_otp demo_env (JNum 9876543210) demo_db) =
     [Select UserCredentials, Delete PasswordResetOtps, Insert PasswordResetOtps]"
  by (simp add: request_otp_def demo_env_def demo_db_def eval_simps)

text \<open>
  C2 fails in the code when the store reports an error for the delete: the handler
  discards the result of that call, unlike that of the insert, and goes on. Here the
  table holds an OTP row for the number, the delete of the second request fails and its
  insert succeeds: the answer is 200 and the table holds two rows for the number, the old
  one and the new one.
\<close>

theorem request_otp_failed_delete:
  "status (resp (request_otp demo_retry_env demo_mobile demo_otp_db)) = 200 \<and>
   filter (\<lambda>r. otp_mobile_number r = to_string demo_mobile)
     (password_reset_otps (db_after (request_otp demo_retry_env demo_mobile demo_otp_db))) =
     [demo_row, demo_row2]"
proof -
  have ok: "status (resp (request_otp demo_retry_env demo_mobile demo_otp_db)) = 200"
    by (simp add: request_otp_def demo_retry_env_def demo_env_def demo_otp_db_def demo_db_def
        demo_mobile_def eval_simps)
  show ?thesis
    unfolding request_otp_success [OF ok] result.simps
    by (simp add: demo_retry_env_def demo_env_def demo_otp_db_def demo_db_def demo_row_def demo_row2_def
        demo_mobile_def eval_simps)
qed

theorem request_otp_failed_delete_witness:
  "truthy demo_mobile \<and> ten_digits (to_string demo_mobile) \<and>
   delete_error demo_retry_env \<and> \<not> insert_error demo_retry_env \<and>
   status (resp (request_otp demo_retry_env demo_mobile demo_otp_db)) = 200 \<and>
   length (filter (\<lambda>r. otp_mobile_number r = to_string demo_mobile)
     (password_reset_otps (db_after (request_otp demo_retry_env demo_mobile demo_otp_db)))) = 2"
proof -
  have h: "truthy demo_mobile" "ten_digits (to_string demo_mobile)"
    "delete_error demo_retry_env" "\<not> insert_error demo_retry_env"
    by (simp_all add: demo_mobile_def demo_retry_env_def demo_env_def js_def ten_digits_def is_digit_def)
  show ?thesis
    using request_otp_failed_delete h by simp
qed

text \<open>
  When the delete takes effect, the rows of the number after a request answered with 200
  are exactly the one new row, expiring 10 minutes after the time the handler read.
\<close>

lemma request_otp_single_row:
  assumes "status (resp (request_otp e v db)) = 200" "\<not> delete_error e"
  shows "filter (\<lambda>r. otp_mobile_number r = to_string v)
           (password_reset_otps (db_after (request_otp e v db))) =
           [\<lparr>otp_id = new_row_id e, otp_mobile_number = to_string v, otp_code = generateOTP (random e),
             expires_at = now e + 10 * 60 * 1000, is_used = False\<rparr>]"
  using assms(2) by (simp add: request_otp_success [OF assms(1)] rows_after_insert)

text \<open>
  C6. The body of a 200 response to a request has \<open>success: true\<close> and a \<open>debug_otp\<close>
  that is the \<open>otp_code\<close> of the row just inserted (the last row of the table, behind
  the rows that were there, or those of them the delete left), whatever the environment
  is; and when the random number is a double in [0, 1), as \<open>Math.random()\<close> gives it,
  the code is six decimal digits.
\<close>

theorem request_otp_debug_otp:
  assumes "status (resp (request_otp e v db)) = 200"
  shows "body (resp (request_otp e v db)) =
           Some [(''success'', JBool True), (''message'', JStr (js ''OTP sent successfully'')),
                 (''debug_otp'', JStr (otp_code (last (password_reset_otps (db_after (request_otp e v db))))))] \<and>
         password_reset_otps (db_after (request_otp e v db)) =
           password_reset_otps (if delete_error e then db else delete_otps (to_string v) db) @
             [last (password_reset_otps (db_after (request_otp e v db)))] \<and>
         (is_double (random e) \<and> 0 \<le> random e \<and> random e < 1 \<longrightarrow>
            length (otp_code (last (password_reset_otps (db_after (request_otp e v db))))) = 6 \<and>
            list_all is_digit (otp_code (last (password_reset_otps (db_after (request_otp e v db))))))"
  using generateOTP_six_digits [of "random e"]
  by (simp add: request_otp_success [OF assms] insert_otp_def json_response_def)

theorem request_otp_debug_otp_witness:
  "status (resp (request_otp demo_env demo_mobile demo_db)) = 200 \<and>
   is_double (random demo_env) \<and> 0 \<le> random demo_env \<and> random demo_env < 1 \<and>
   body (resp (request_otp demo_env demo_mobile demo_db)) =
     Some [(''success'', JBool True), (''message'', JStr (js ''OTP sent successfully'')),
           (''debug_otp'', JStr (otp_code (last (password_reset_otps
              (db_after (request_otp demo_env demo_mobile demo_db))))))] \<and>
   length (otp_code (last (password_reset_otps (db_after (request_otp demo_env demo_mobile demo_db))))) = 6"
proof -
  have r: "is_double (random demo_env) \<and> 0 \<le> random demo_env \<and> random demo_env < 1"
    using is_double_half by (simp add: demo_env_def)
  show ?thesis
    using request_otp_debug_otp [OF demo_request_ok] demo_request_ok r by simp
qed

section \<open>Verifying an OTP\<close>

lemma find_valid_otp_row:
  assumes "find_valid_otp db m c t = Some r"
  shows "r \<in> set (password_reset_otps db) \<and> otp_mobile_number r = m \<and> otp_code r = c \<and>
         \<not> is_used r \<and> t \<le> expires_at r"
proof -
  let ?P = "\<lambda>r. otp_mobile_number r = m \<and> otp_code r = c \<and> is_used r = False \<and> t \<le> expires_at r"
  from assms have "filter ?P (password_reset_otps db) = [r]"
    unfolding find_valid_otp_def
    by (cases "filter ?P (password_reset_otps db)" rule: maybe_single.cases) simp_all
  then have "r \<in> set (filter ?P (password_reset_otps db))" by simp
  then show ?thesis by simp
qed

lemma find_valid_otp_none:
  assumes "\<And>r. r \<in> set (password_reset_otps db) \<Longrightarrow> otp_mobile_number r = m \<Longrightarrow> otp_code r = c \<Longrightarrow>
             is_used r \<or> expires_at r < t"
  shows "find_valid_otp db m c t = None"
proof -
  have "filter (\<lambda>r. otp_mobile_number r = m \<and> otp_code r = c \<and> is_used r = False \<and> t \<le> expires_at r)
          (password_reset_otps db) = []"
    using assms by (force simp: filter_empty_conv)
  then show ?thesis by (simp add: find_valid_otp_def)
qed

lemma find_valid_otp_later:
  assumes "find_valid_otp db m c t0 = Some r" "t0 \<le> t" "t \<le> expires_at r"
  shows "find_valid_otp db m c t = Some r"
proof -
  let ?P = "\<lambda>t r. otp_mobile_number r = m \<and> otp_code r = c \<and> is_used r = False \<and> t \<le> expires_at r"
  from assms(1) have one: "filter (?P t0) (password_reset_otps db) = [r]"
    unfolding find_valid_otp_def
    by (cases "filter (?P t0) (password_reset_otps db)" rule: maybe_single.cases) simp_all
  have r: "?P t r" using find_valid_otp_row [OF assms(1)] assms(3) by simp
  have "filter (?P t) (password_reset_otps db) = filter (?P t) (filter (?P t0) (password_reset_otps db))"
    using assms(2) by (auto intro: filter_cong)
  also have "\<dots> = [r]" unfolding one using r by simp
  finally show ?thesis by (simp add: find_valid_otp_def)
qed

text \<open>
  C3, as amended. When every row of the OTP table with the presented mobile number and
  code has its expiry strictly earlier than the time read (so in particular for an
  expired row that is the only row of its pair), both actions answer 400 and leave the
  whole table store as it was. With both fields non-empty the message of \<open>verify_otp\<close>
  is "Invalid or expired OTP"; that of \<open>reset_password\<close>, whose checks of the password
  come first, is "Invalid or expired OTP. Please request a new one." for a password
  that passes them.
\<close>

theorem expired_pair_rejected:
  assumes "r \<in> set (password_reset_otps db)"
    and "\<forall>x \<in> set (password_reset_otps db).
           otp_mobile_number x = otp_mobile_number r \<and> otp_code x = otp_code r \<longrightarrow> expires_at x < now e"
  shows "status (resp (verify_otp e (JStr (otp_mobile_number r)) (JStr (otp_code r)) db)) = 400 \<and>
         db_after (verify_otp e (JStr (otp_mobile_number r)) (JStr (otp_code r)) db) = db \<and>
         (otp_mobile_number r \<noteq> [] \<and> otp_code r \<noteq> [] \<longrightarrow>
            resp (verify_otp e (JStr (otp_mobile_number r)) (JStr (otp_code r)) db) =
              error_response 400 ''Invalid or expired OTP'') \<and>
         status (resp (reset_password sha256 e (JStr (otp_mobile_number r)) (JStr (otp_code r)) p db)) = 400 \<and>
         db_after (reset_password sha256 e (JStr (otp_mobile_number r)) (JStr (otp_code r)) p db) = db \<and>
         (otp_mobile_number r \<noteq> [] \<and> otp_code r \<noteq> [] \<and> truthy p \<and> \<not> shorter_than_6 p \<longrightarrow>
            resp (reset_password sha256 e (JStr (otp_mobile_number r)) (JStr (otp_code r)) p db) =
              error_response 400 ''Invalid or expired OTP. Please request a new one.'')"
proof -
  have none: "find_valid_otp db (otp_mobile_number r) (otp_code r) (now e) = None"
    using assms(2) by (intro find_valid_otp_none) simp
  show ?thesis
    by (simp add: verify_otp_def reset_password_def none error_response_def json_response_def)
qed

theorem expired_pair_rejected_witness:
  "demo_row \<in> set (password_reset_otps demo_otp_db) \<and>
   expires_at demo_row < now demo_late_env \<and>
   resp (verify_otp demo_late_env demo_mobile demo_code demo_otp_db) =
     error_response 400 ''Invalid or expired OTP'' \<and>
   resp (reset_password demo_sha256 demo_late_env demo_mobile demo_code demo_password demo_otp_db) =
     error_response 400 ''Invalid or expired OTP. Please request a new one.'' \<and>
   db_after (reset_password demo_sha256 demo_late_env demo_mobile demo_code demo_password demo_otp_db) =
     demo_otp_db"
proof -
  have h: "demo_row \<in> set (password_reset_otps demo_otp_db)"
    "\<forall>x \<in> set (password_reset_otps demo_otp_db).
       otp_mobile_number x = otp_mobile_number demo_row \<and> otp_code x = otp_code demo_row \<longrightarrow>
       expires_at x < now demo_late_env"
    by (simp_all add: demo_otp_db_def demo_row_def demo_late_env_def demo_env_def)
  have t: "expires_at demo_row < now demo_late_env"
    by (simp add: demo_row_def demo_late_env_def demo_env_def)
  have f: "JStr (otp_mobile_number demo_row) = demo_mobile" "JStr (otp_code demo_row) = demo_code"
    "otp_mobile_number demo_row \<noteq> []" "otp_code demo_row \<noteq> []"
    "truthy demo_password" "\<not> shorter_than_6 demo_password"
    by (simp_all add: demo_row_def demo_mobile_def demo_code_def demo_password_def js_def)
  show ?thesis
    using expired_pair_rejected [OF h, of demo_sha256 demo_password] h(1) t f by simp
qed

text \<open>
  C3 as stated fails: after a request and, once its OTP has expired, a second request
  that draws the same code and whose delete call fails, the table holds the expired row
  and a live row of the same mobile number and code; the pair of the expired row is then
  verified with 200.
\<close>

theorem expired_pair_accepted:
  "demo_row \<in> set (password_reset_otps
     (run demo_sha256 [(demo_env, demo_request_req), (demo_retry_env, demo_request_req)] demo_db)) \<and>
   expires_at demo_row < now demo_late_env \<and>
   status (resp (verify_otp demo_late_env (JStr (otp_mobile_number demo_row)) (JStr (otp_code demo_row))
     (run demo_sha256 [(demo_env, demo_request_req), (demo_retry_env, demo_request_req)] demo_db))) = 200"
proof -
  have s: "db_after (serve demo_sha256 e demo_request_req db) = db_after (request_otp e demo_mobile db)"
    if "configured e" for e db
    using that by (simp add: serve_def demo_request_req_def js_def)
  have c: "configured demo_env" "configured demo_retry_env"
    by (simp_all add: demo_retry_env_def demo_env_def)
  have first: "db_after (request_otp demo_env demo_mobile demo_db) = demo_otp_db"
    unfolding request_otp_success [OF demo_request_ok] result.simps
    by (simp add: demo_env_def demo_db_def demo_otp_db_def demo_row_def demo_mobile_def eval_simps)
  have ok: "status (resp (request_otp demo_retry_env demo_mobile demo_otp_db)) = 200"
    by (simp add: request_otp_def demo_retry_env_def demo_env_def demo_otp_db_def demo_db_def
        demo_mobile_def eval_simps)
  have second: "password_reset_otps (db_after (request_otp demo_retry_env demo_mobile demo_otp_db)) =
      [demo_row, demo_row2]"
    unfolding request_otp_success [OF ok] result.simps
    by (simp add: demo_retry_env_def demo_env_def demo_otp_db_def demo_db_def demo_row_def demo_row2_def
        demo_mobile_def eval_simps)
  have rows: "password_reset_otps
     (run demo_sha256 [(demo_env, demo_request_req), (demo_retry_env, demo_request_req)] demo_db) =
     [demo_row, demo_row2]"
    by (simp add: s c first second)
  have v: "find_valid_otp
     (run demo_sha256 [(demo_env, demo_request_req), (demo_retry_env, demo_request_req)] demo_db)
     (to_string (JStr (otp_mobile_number demo_row))) (to_string (JStr (otp_code demo_row)))
     (now demo_late_env) = Some demo_row2"
    unfolding find_valid_otp_def rows
    by (simp add: demo_row_def demo_row2_def demo_late_env_def demo_env_def)
  have "status (resp (verify_otp demo_late_env (JStr (otp_mobile_number demo_row)) (JStr (otp_code demo_row))
     (run demo_sha256 [(demo_env, demo_request_req), (demo_retry_env, demo_request_req)] demo_db))) = 200"
    unfolding verify_otp_def v
    by (simp add: json_response_def demo_row_def js_def)
  then show ?thesis
    unfolding rows by (simp add: demo_row_def demo_late_env_def demo_env_def)
qed

text \<open>
  C5. \<open>verify_otp\<close> returns the table store unchanged and makes at most the one read of
  the OTP table. Hence a pair that matches a row at time \<open>t0\<close> is verified successfully
  by every call of any sequence of calls made between \<open>t0\<close> and the row's expiry, and the
  table store is still the same after them.
\<close>

theorem verify_otp_read_only:
  "db_after (verify_otp e m c db) = db \<and>
   (calls (verify_otp e m c db) = [] \<or> calls (verify_otp e m c db) = [Select PasswordResetOtps]) \<and>
   (truthy m \<and> truthy c \<and> find_valid_otp db (to_string m) (to_string c) t0 = Some r \<and>
    (\<forall>e' \<in> set es. t0 \<le> now e' \<and> now e' \<le> expires_at r) \<longrightarrow>
      length (fst (verify_many es m c db)) = length es \<and>
      list_all (\<lambda>x. status x = 200) (fst (verify_many es m c db)) \<and>
      snd (verify_many es m c db) = db)"
proof -
  have frame: "db_after (verify_otp e m c db) = db" for e
    by (simp add: verify_otp_def split: option.splits)
  have reads: "calls (verify_otp e m c db) = [] \<or> calls (verify_otp e m c db) = [Select PasswordResetOtps]"
    by (simp add: verify_otp_def split: option.splits)
  have many: "length (fst (verify_many es m c db)) = length es \<and>
      list_all (\<lambda>x. status x = 200) (fst (verify_many es m c db)) \<and>
      snd (verify_many es m c db) = db"
    if tr: "truthy m" "truthy c" and f: "find_valid_otp db (to_string m) (to_string c) t0 = Some r"
      and ts: "\<forall>e' \<in> set es. t0 \<le> now e' \<and> now e' \<le> expires_at r"
    using ts
  proof (induction es)
    case Nil
    then show ?case by simp
  next
    case (Cons a es)
    have "find_valid_otp db (to_string m) (to_string c) (now a) = Some r"
      using Cons.prems by (intro find_valid_otp_later [OF f]) simp_all
    then have "status (resp (verify_otp a m c db)) = 200"
      using tr by (simp add: verify_otp_def json_response_def)
    with Cons show ?case by (simp add: Let_def frame)
  qed
  show ?thesis using frame reads many by blast
qed

theorem verify_otp_read_only_witness:
  "truthy demo_mobile \<and> truthy demo_code \<and>
   find_valid_otp demo_otp_db (to_string demo_mobile) (to_string demo_code) 1000 = Some demo_row \<and>
   length (fst (verify_many [demo_env, demo_env\<lparr>now := 2000\<rparr>] demo_mobile demo_code demo_otp_db)) = 2 \<and>
   list_all (\<lambda>x. status x = 200)
     (fst (verify_many [demo_env, demo_env\<lparr>now := 2000\<rparr>] demo_mobile demo_code demo_otp_db)) \<and>
   snd (verify_many [demo_env, demo_env\<lparr>now := 2000\<rparr>] demo_mobile demo_code demo_otp_db) = demo_otp_db"
proof -
  have t: "truthy demo_mobile" "truthy demo_code"
    by (simp_all add: demo_mobile_def demo_code_def js_def)
  have f: "find_valid_otp demo_otp_db (to_string demo_mobile) (to_string demo_code) 1000 = Some demo_row"
    by (simp add: find_valid_otp_def demo_otp_db_def demo_row_def demo_mobile_def demo_code_def)
  have ts: "\<forall>e' \<in> set [demo_env, demo_env\<lparr>now := 2000\<rparr>]. 1000 \<le> now e' \<and> now e' \<le> expires_at demo_row"
    by (simp add: demo_env_def demo_row_def)
  show ?thesis
    using verify_otp_read_only [of demo_env demo_mobile demo_code demo_otp_db 1000 demo_row
        "[demo_env, demo_env\<lparr>now := 2000\<rparr>]"] t f ts
    by (simp del: verify_many.simps)
qed

section \<open>Hashing\<close>





section \<open>Resetting the password\<close>

lemma reset_password_success:
  assumes "status (resp (reset_password dg e m c p db)) = 200"
  shows "\<exists>r. find_valid_otp db (to_string m) (to_string c) (now e) = Some r \<and>
           truthy m \<and> truthy c \<and> truthy p \<and> \<not> shorter_than_6 p \<and> \<not> update_error e \<and>
           user_credentials (db_after (reset_password dg e m c p db)) =
             user_credentials (update_password (to_string m) (hashPassword dg (to_string p)) (update_time e) db) \<and>
           password_reset_otps (db_after (reset_password dg e m c p db)) =
             (if mark_used_error e then password_reset_otps db
              else password_reset_otps (mark_used (otp_id r) db))"
  using assms
  by (auto simp: reset_password_def error_response_def json_response_def Let_def
        update_password_def mark_used_def deactivate_sessions_def
      split: if_splits option.splits)

lemma reset_password_ok:
  assumes "find_valid_otp db (to_string m) (to_string c) (now e) = Some r"
    "truthy m" "truthy c" "truthy p" "\<not> shorter_than_6 p" "\<not> update_error e"
  shows "status (resp (reset_password dg e m c p db)) = 200"
  using assms
  by (simp add: reset_password_def json_response_def Let_def split: option.splits)

lemma find_valid_otp_cong:
  "password_reset_otps a = password_reset_otps b \<Longrightarrow> find_valid_otp a m c t = find_valid_otp b m c t"
  by (simp add: find_valid_otp_def)

text \<open>
  C9. For a request that passes the checks and matches the OTP row \<open>r\<close>: without an
  error of the password update, the handler answers 200 and issues the update of the
  credential row and then the update that marks the OTP used as two calls, in that order;
  the second works on the store the first one left, and when it fails the OTP rows stay
  as they were. With an error of the password update the handler answers 500 and the
  store is as before. In the store as the password update alone leaves it, \<open>r\<close> is
  still there and unused; there, in the store after the 500, and in the store after a 200
  whose mark-used call failed, a further reset with the same pair before the expiry
  succeeds.
\<close>

theorem reset_password_two_calls:
  assumes "find_valid_otp db (to_string m) (to_string c) (now e) = Some r"
    "truthy m" "truthy c" "truthy p" "\<not> shorter_than_6 p"
  shows "(\<not> update_error e \<longrightarrow>
            status (resp (reset_password dg e m c p db)) = 200 \<and>
            take 3 (calls (reset_password dg e m c p db)) =
              [Select PasswordResetOtps, Update UserCredentials, Update PasswordResetOtps] \<and>
            user_credentials (db_after (reset_password dg e m c p db)) =
              user_credentials (update_password (to_string m) (hashPassword dg (to_string p)) (update_time e) db) \<and>
            password_reset_otps (db_after (reset_password dg e m c p db)) =
              (if mark_used_error e then password_reset_otps db
               else password_reset_otps (mark_used (otp_id r)
                 (update_password (to_string m) (hashPassword dg (to_string p)) (update_time e) db)))) \<and>
         (update_error e \<longrightarrow>
            status (resp (reset_password dg e m c p db)) = 500 \<and>
            calls (reset_password dg e m c p db) = [Select PasswordResetOtps, Update UserCredentials] \<and>
            db_after (reset_password dg e m c p db) = db) \<and>
         r \<in> set (password_reset_otps
                (update_password (to_string m) (hashPassword dg (to_string p)) (update_time e) db)) \<and>
         \<not> is_used r \<and>
         (truthy p' \<and> \<not> shorter_than_6 p' \<and> \<not> update_error e' \<and> now e \<le> now e' \<and> now e' \<le> expires_at r \<longrightarrow>
            status (resp (reset_password dg e' m c p'
              (update_password (to_string m) (hashPassword dg (to_string p)) (update_time e) db))) = 200 \<and>
            (update_error e \<or> mark_used_error e \<longrightarrow>
               status (resp (reset_password dg e' m c p' (db_after (reset_password dg e m c p db)))) = 200))"
proof -
  let ?db1 = "update_password (to_string m) (hashPassword dg (to_string p)) (update_time e) db"
  let ?R = "reset_password dg e m c p db"
  have same: "password_reset_otps ?db1 = password_reset_otps db"
    by (simp add: update_password_def)
  have row: "r \<in> set (password_reset_otps db)" "\<not> is_used r"
    using find_valid_otp_row [OF assms(1)] by simp_all
  have ok: "status (resp ?R) = 200 \<and>
            take 3 (calls ?R) =
              [Select PasswordResetOtps, Update UserCredentials, Update PasswordResetOtps] \<and>
            user_credentials (db_after ?R) = user_credentials ?db1 \<and>
            password_reset_otps (db_after ?R) =
              (if mark_used_error e then password_reset_otps db
               else password_reset_otps (mark_used (otp_id r) ?db1))"
    if "\<not> update_error e"
    using assms that
    by (simp add: reset_password_def json_response_def Let_def mark_used_def deactivate_sessions_def
        update_password_def split: option.splits)
  have err: "status (resp ?R) = 500 \<and>
            calls ?R = [Select PasswordResetOtps, Update UserCredentials] \<and>
            db_after ?R = db"
    if "update_error e"
    using assms that
    by (simp add: reset_password_def json_response_def error_response_def Let_def)
  have kept: "password_reset_otps (db_after ?R) = password_reset_otps db"
    if "update_error e \<or> mark_used_error e"
    using that ok err by (cases "update_error e") simp_all
  have again: "status (resp (reset_password dg e' m c p' ?db1)) = 200 \<and>
            (update_error e \<or> mark_used_error e \<longrightarrow>
               status (resp (reset_password dg e' m c p' (db_after ?R))) = 200)"
    if h: "truthy p'" "\<not> shorter_than_6 p'" "\<not> update_error e'" "now e \<le> now e'" "now e' \<le> expires_at r"
  proof -
    have f: "find_valid_otp db (to_string m) (to_string c) (now e') = Some r"
      using h by (intro find_valid_otp_later [OF assms(1)])
    have f1: "find_valid_otp ?db1 (to_string m) (to_string c) (now e') = Some r"
      using f find_valid_otp_cong [OF same] by simp
    have f2: "find_valid_otp (db_after ?R) (to_string m) (to_string c) (now e') = Some r"
      if "update_error e \<or> mark_used_error e"
      using f find_valid_otp_cong [OF kept [OF that]] by simp
    show ?thesis
      using reset_password_ok [OF f1 assms(2,3) h(1,2,3)] reset_password_ok [OF f2 assms(2,3) h(1,2,3)]
      by blast
  qed
  show ?thesis
    using ok err again row same by simp
qed


section \<open>The concrete store\<close>

lemma demo_find: "find_valid_otp demo_otp_db (to_string demo_mobile) (to_string demo_code) (now demo_env) = Some demo_row"
  by (simp add: find_valid_otp_def demo_otp_db_def demo_row_def demo_mobile_def demo_code_def demo_env_def)

lemma demo_truthy: "truthy demo_mobile" "truthy demo_code" "truthy demo_password" "\<not> shorter_than_6 demo_password"
  by (simp_all add: demo_mobile_def demo_code_def demo_password_def js_def)

lemma demo_reset_ok:
  "status (resp (reset_password demo_sha256 demo_env demo_mobile demo_code demo_password demo_otp_db)) = 200"
  by (rule reset_password_ok [OF demo_find demo_truthy]) (simp add: demo_env_def)


theorem reset_password_two_calls_witness:
  "find_valid_otp demo_otp_db (to_string demo_mobile) (to_string demo_code) (now demo_env) = Some demo_row \<and>
   truthy demo_mobile \<and> truthy demo_code \<and> truthy demo_password \<and> \<not> shorter_than_6 demo_password \<and>
   \<not> update_error demo_env \<and> update_error (demo_env\<lparr>update_error := True\<rparr>) \<and>
   take 3 (calls (reset_password demo_sha256 demo_env demo_mobile demo_code demo_password demo_otp_db)) =
     [Select PasswordResetOtps, Update UserCredentials, Update PasswordResetOtps] \<and>
   status (resp (reset_password demo_sha256 (demo_env\<lparr>update_error := True\<rparr>) demo_mobile demo_code
     demo_password demo_otp_db)) = 500 \<and>
   status (resp (reset_password demo_sha256 demo_env demo_mobile demo_code demo_password
     (update_password (to_string demo_mobile) (hashPassword demo_sha256 (to_string demo_password))
        (update_time demo_env) demo_otp_db))) = 200 \<and>
   status (resp (reset_password demo_sha256 demo_env demo_mobile demo_code demo_password
     (db_after (reset_password demo_sha256 (demo_env\<lparr>update_error := True\<rparr>) demo_mobile demo_code
        demo_password demo_otp_db)))) = 200 \<and>
   status (resp (reset_password demo_sha256 demo_env demo_mobile demo_code demo_password
     (db_after (reset_password demo_sha256 (demo_env\<lparr>mark_used_error := True\<rparr>) demo_mobile demo_code
        demo_password demo_otp_db)))) = 200"
proof -
  have f2: "find_valid_otp demo_otp_db (to_string demo_mobile) (to_string demo_code)
      (now (demo_env\<lparr>update_error := True\<rparr>)) = Some demo_row"
    "find_valid_otp demo_otp_db (to_string demo_mobile) (to_string demo_code)
      (now (demo_env\<lparr>mark_used_error := True\<rparr>)) = Some demo_row"
    using demo_find by simp_all
  have t: "now demo_env \<le> expires_at demo_row" "\<not> update_error demo_env"
    by (simp_all add: demo_env_def demo_row_def)
  show ?thesis
    using reset_password_two_calls [OF demo_find demo_truthy, where ?p' = demo_password and ?e' = demo_env and ?dg = demo_sha256]
      reset_password_two_calls [OF f2(1) demo_truthy, where ?p' = demo_password and ?e' = demo_env and ?dg = demo_sha256]
      reset_password_two_calls [OF f2(2) demo_truthy, where ?p' = demo_password and ?e' = demo_env and ?dg = demo_sha256]
      demo_find demo_truthy t
    by simp
qed


section \<open>A used OTP\<close>

lemma no_live_reject:
  assumes "no_live (to_string m) (to_string c) t db" "t \<le> now e"
  shows "status (resp (reset_password dg e m c p db)) = 400 \<and> db_after (reset_password dg e m c p db) = db"
proof -
  have "find_valid_otp db (to_string m) (to_string c) (now e) = None"
  proof (rule find_valid_otp_none)
    fix r
    assume "r \<in> set (password_reset_otps db)" "otp_mobile_number r = to_string m"
      "otp_code r = to_string c"
    with assms(1) have "is_used r \<or> expires_at r < t" by (simp add: no_live_def list_all_iff)
    with assms(2) show "is_used r \<or> expires_at r < now e" by auto
  qed
  then show ?thesis
    by (simp add: reset_password_def error_response_def json_response_def)
qed

lemma request_otp_rows:
  "password_reset_otps (db_after (request_otp e v db)) = password_reset_otps db \<or>
   password_reset_otps (db_after (request_otp e v db)) =
     filter (\<lambda>r. otp_mobile_number r \<noteq> to_string v) (password_reset_otps db) \<or>
   password_reset_otps (db_after (request_otp e v db)) =
     filter (\<lambda>r. otp_mobile_number r \<noteq> to_string v) (password_reset_otps db) @
       [\<lparr>otp_id = new_row_id e, otp_mobile_number = to_string v, otp_code = generateOTP (random e),
         expires_at = now e + 600000, is_used = False\<rparr>] \<or>
   password_reset_otps (db_after (request_otp e v db)) =
     password_reset_otps db @
       [\<lparr>otp_id = new_row_id e, otp_mobile_number = to_string v, otp_code = generateOTP (random e),
         expires_at = now e + 600000, is_used = False\<rparr>]"
  by (simp add: request_otp_def Let_def delete_otps_def insert_otp_def split: option.splits)

lemma reset_password_rows:
  "password_reset_otps (db_after (reset_password dg e m c p db)) = password_reset_otps db \<or>
   (\<exists>i. password_reset_otps (db_after (reset_password dg e m c p db)) =
      map (\<lambda>r. if otp_id r = i then r\<lparr>is_used := True\<rparr> else r) (password_reset_otps db))"
  by (auto simp: reset_password_def Let_def mark_used_def update_password_def deactivate_sessions_def
      split: option.splits)

lemma verify_otp_rows: "db_after (verify_otp e m c db) = db"
  by (simp add: verify_otp_def split: option.splits)

lemma no_live_request:
  assumes "no_live M C t db" "\<not> (to_string v = M \<and> generateOTP (random e) = C)"
  shows "no_live M C t (db_after (request_otp e v db))"
  using request_otp_rows [of e v db] assms
  by (auto simp: no_live_def list_all_iff)

lemma no_live_reset:
  assumes "no_live M C t db"
  shows "no_live M C t (db_after (reset_password dg e m c p db))"
  using reset_password_rows [of dg e m c p db] assms
  by (auto simp: no_live_def list_all_iff)

lemma no_live_serve:
  assumes "no_live M C t db" "\<not> reissues M C e q"
  shows "no_live M C t (db_after (serve dg e q db))"
proof (cases "json_body q")
  case None
  with assms show ?thesis by (simp add: serve_def)
next
  case (Some b)
  show ?thesis
  proof (cases "req_action b = JStr (js ''request_otp'')")
    case True
    with Some assms(2) have "\<not> (to_string (req_mobile_number b) = M \<and> generateOTP (random e) = C)"
      by (simp add: reissues_def)
    from no_live_request [OF assms(1) this] Some True assms(1) show ?thesis
      by (simp add: serve_def)
  next
    case False
    with Some assms(1) show ?thesis
      by (simp add: serve_def verify_otp_rows no_live_reset)
  qed
qed

lemma no_live_run:
  "no_live M C t db \<Longrightarrow> list_all (\<lambda>(e, q). \<not> reissues M C e q) acts \<Longrightarrow>
   no_live M C t (run dg acts db)"
proof (induction acts arbitrary: db)
  case Nil
  then show ?case by simp
next
  case (Cons a acts)
  obtain e q where a: "a = (e, q)" by (cases a)
  from Cons.prems a have "no_live M C t (db_after (serve dg e q db))"
    by (intro no_live_serve) simp_all
  with Cons a show ?case by simp
qed

lemma success_no_live:
  assumes "status (resp (reset_password dg e m c p db)) = 200" "\<not> mark_used_error e"
  shows "no_live (to_string m) (to_string c) (now e) (db_after (reset_password dg e m c p db)) \<and>
         (\<exists>r. find_valid_otp db (to_string m) (to_string c) (now e) = Some r \<and>
              r\<lparr>is_used := True\<rparr> \<in> set (password_reset_otps (db_after (reset_password dg e m c p db))))"
proof -
  let ?P = "\<lambda>r. otp_mobile_number r = to_string m \<and> otp_code r = to_string c \<and> is_used r = False \<and>
              now e \<le> expires_at r"
  from reset_password_success [OF assms(1)] assms(2) obtain r where
    f: "find_valid_otp db (to_string m) (to_string c) (now e) = Some r" and
    rows: "password_reset_otps (db_after (reset_password dg e m c p db)) =
             password_reset_otps (mark_used (otp_id r) db)"
    by auto
  from f have one: "filter ?P (password_reset_otps db) = [r]"
    unfolding find_valid_otp_def
    by (cases "filter ?P (password_reset_otps db)" rule: maybe_single.cases) simp_all
  have r: "r \<in> set (password_reset_otps db)"
    using find_valid_otp_row [OF f] by simp
  have "is_used y \<or> expires_at y < now e"
    if y: "y \<in> set (password_reset_otps (mark_used (otp_id r) db))"
      "otp_mobile_number y = to_string m" "otp_code y = to_string c" for y
  proof -
    from y(1) obtain x where x: "x \<in> set (password_reset_otps db)"
      "y = (if otp_id x = otp_id r then x\<lparr>is_used := True\<rparr> else x)"
      by (auto simp: mark_used_def)
    show ?thesis
    proof (cases "?P x")
      case True
      with x(1) have "x \<in> set (filter ?P (password_reset_otps db))" by simp
      then have "x = r" unfolding one by simp
      with x(2) show ?thesis by simp
    next
      case False
      with x(2) y(2,3) show ?thesis by (auto split: if_splits)
    qed
  qed
  moreover have "r\<lparr>is_used := True\<rparr> \<in> set (password_reset_otps (mark_used (otp_id r) db))"
    using r by (force simp: mark_used_def)
  ultimately show ?thesis
    using f rows by (simp add: no_live_def list_all_iff)
qed

text \<open>
  C4, as amended. A successful reset whose mark-used update took effect leaves the row
  it matched marked used, and every row with that mobile number and code used or expired.
  After any sequence of invocations in which no \<open>request_otp\<close> for that number draws
  the same code again, a later reset presenting the pair (one that reads a time not
  earlier than the first one did) is answered with 400 and changes nothing in the table
  store.
\<close>

theorem used_otp_not_reusable:
  assumes "status (resp (reset_password dg e m c p db)) = 200"
    and "\<not> mark_used_error e"
    and "list_all (\<lambda>(e', q). \<not> reissues (to_string m) (to_string c) e' q) acts"
    and "now e \<le> now e2"
  shows "(\<exists>r. find_valid_otp db (to_string m) (to_string c) (now e) = Some r \<and>
              r\<lparr>is_used := True\<rparr> \<in> set (password_reset_otps (db_after (reset_password dg e m c p db)))) \<and>
         no_live (to_string m) (to_string c) (now e) (db_after (reset_password dg e m c p db)) \<and>
         status (resp (reset_password dg e2 m c p2
           (run dg acts (db_after (reset_password dg e m c p db))))) = 400 \<and>
         db_after (reset_password dg e2 m c p2
           (run dg acts (db_after (reset_password dg e m c p db)))) =
           run dg acts (db_after (reset_password dg e m c p db))"
proof -
  note s = success_no_live [OF assms(1,2)]
  from s have "no_live (to_string m) (to_string c) (now e)
      (run dg acts (db_after (reset_password dg e m c p db)))"
    using assms(3) by (intro no_live_run) simp_all
  from no_live_reject [OF this assms(4)] s show ?thesis by simp
qed

lemma demo_after_request:
  "db_after (serve demo_sha256 demo_env demo_request_req db) = db_after (request_otp demo_env demo_mobile db)"
  "db_after (serve demo_sha256 demo_env demo_reset_req db) =
     db_after (reset_password demo_sha256 demo_env demo_mobile demo_code demo_password db)"
  "resp (serve demo_sha256 demo_env demo_reset_req db) =
     resp (reset_password demo_sha256 demo_env demo_mobile demo_code demo_password db)"
  by (simp_all add: serve_def demo_request_req_def demo_reset_req_def demo_env_def js_def)

lemma demo_first_request: "db_after (request_otp demo_env demo_mobile demo_db) = demo_otp_db"
  by (simp add: request_otp_success [OF demo_request_ok])
    (simp add: demo_env_def demo_db_def demo_otp_db_def demo_row_def demo_mobile_def eval_simps)

text \<open>
  C4 as stated fails for the sequence request, reset, request, reset in which no call of
  the store fails and the second request draws the code of the first: the second reset
  presents the same mobile number and code as the first, later, and is answered with 200
  (by the new row).
\<close>

theorem used_code_accepted_again:
  "status (resp (serve demo_sha256 demo_env demo_reset_req
     (run demo_sha256 [(demo_env, demo_request_req)] demo_db))) = 200 \<and>
   status (resp (serve demo_sha256 demo_env demo_reset_req
     (run demo_sha256 [(demo_env, demo_request_req), (demo_env, demo_reset_req), (demo_env, demo_request_req)]
        demo_db))) = 200"
proof -
  let ?db2 = "db_after (reset_password demo_sha256 demo_env demo_mobile demo_code demo_password demo_otp_db)"
  have first: "status (resp (reset_password demo_sha256 demo_env demo_mobile demo_code demo_password
      demo_otp_db)) = 200"
    by (rule demo_reset_ok)
  have creds: "map cred_mobile_number (user_credentials ?db2) = [js ''9876543210'']"
    using reset_password_success [OF first]
    by (auto simp: update_password_def demo_otp_db_def demo_db_def demo_mobile_def)
  then have one: "maybe_single (credentials_by_mobile ?db2 (to_string demo_mobile)) \<noteq> None"
    by (cases "user_credentials ?db2")
      (auto simp: credentials_by_mobile_def demo_mobile_def)
  have ten: "truthy demo_mobile" "ten_digits (to_string demo_mobile)"
    by (simp_all add: demo_mobile_def js_def ten_digits_def is_digit_def)
  have again: "status (resp (request_otp demo_env demo_mobile ?db2)) = 200"
    using one ten
    by (auto simp: request_otp_def Let_def json_response_def demo_env_def)
  let ?db3 = "db_after (request_otp demo_env demo_mobile ?db2)"
  have nd: "\<not> delete_error demo_env" by (simp add: demo_env_def)
  have rows: "filter (\<lambda>r. otp_mobile_number r = to_string demo_mobile) (password_reset_otps ?db3) = [demo_row]"
    unfolding request_otp_single_row [OF again nd]
    by (simp add: demo_env_def demo_row_def demo_mobile_def eval_simps)
  have "filter (\<lambda>r. otp_mobile_number r = to_string demo_mobile \<and> otp_code r = to_string demo_code \<and>
          is_used r = False \<and> now demo_env \<le> expires_at r) (password_reset_otps ?db3) =
        filter (\<lambda>r. otp_code r = to_string demo_code \<and> is_used r = False \<and> now demo_env \<le> expires_at r)
          (filter (\<lambda>r. otp_mobile_number r = to_string demo_mobile) (password_reset_otps ?db3))"
    by (auto intro: filter_cong)
  also have "\<dots> = [demo_row]"
    unfolding rows by (simp add: demo_row_def demo_code_def demo_env_def)
  finally have "find_valid_otp ?db3 (to_string demo_mobile) (to_string demo_code) (now demo_env) = Some demo_row"
    by (simp add: find_valid_otp_def)
  from reset_password_ok [OF this demo_truthy, where ?dg = demo_sha256]
  have second: "status (resp (reset_password demo_sha256 demo_env demo_mobile demo_code demo_password ?db3)) = 200"
    by (simp add: demo_env_def)
  show ?thesis
    using first second by (simp add: demo_after_request demo_first_request)
qed

theorem used_otp_not_reusable_witness:
  "status (resp (reset_password demo_sha256 demo_env demo_mobile demo_code demo_password demo_otp_db)) = 200 \<and>
   \<not> mark_used_error demo_env \<and>
   \<not> reissues (to_string demo_mobile) (to_string demo_code) demo_env demo_verify_req \<and>
   \<not> reissues (to_string demo_mobile) (to_string demo_code) (demo_env\<lparr>random := 0\<rparr>) demo_request_req \<and>
   now demo_env \<le> now demo_env \<and>
   status (resp (reset_password demo_sha256 demo_env demo_mobile demo_code demo_password
     (run demo_sha256 [(demo_env, demo_verify_req), (demo_env\<lparr>random := 0\<rparr>, demo_request_req)]
       (db_after (reset_password demo_sha256 demo_env demo_mobile demo_code demo_password demo_otp_db))))) = 400"
proof -
  have m: "\<not> mark_used_error demo_env"
    by (simp add: demo_env_def)
  have n1: "\<not> reissues (to_string demo_mobile) (to_string demo_code) demo_env demo_verify_req"
    by (simp add: reissues_def demo_verify_req_def js_def)
  have n2: "\<not> reissues (to_string demo_mobile) (to_string demo_code) (demo_env\<lparr>random := 0\<rparr>) demo_request_req"
    by (simp add: reissues_def demo_request_req_def demo_code_def eval_simps)
  have acts: "list_all (\<lambda>(e', q). \<not> reissues (to_string demo_mobile) (to_string demo_code) e' q)
      [(demo_env, demo_verify_req), (demo_env\<lparr>random := 0\<rparr>, demo_request_req)]"
    using n1 n2 by simp
  have t: "now demo_env \<le> now demo_env" by simp
  show ?thesis
    using used_otp_not_reusable [OF demo_reset_ok m acts t, of demo_password] demo_reset_ok m n1 n2
    by (simp del: run.simps to_string.simps)
qed

section \<open>Jobs: expiry and applications\<close>

text \<open>
  C8. For a job whose \<open>expires_at\<close> is strictly earlier than the current time, whatever
  its status field is, \<open>isExpired\<close> holds and the detail view shows the badge
  "Offer Ended" and neither the apply button nor the close button.
\<close>

theorem expired_job_rendered_closed:
  assumes "job_expires_at j = Some t" "t < now_ms"
  shows "isExpired j now_ms \<and>
         JobDetail False (Some j) user now_ms =
           JobPage \<lparr>badge_text = ''Offer Ended'', badge_variant = ''secondary'', apply_button = False,
                    close_button = False, applications_section = (user = Some (creator_id j))\<rparr>"
  using assms by (simp add: isExpired_def JobDetail_def Let_def)

theorem expired_job_rendered_closed_witness:
  "job_expires_at demo_job = Some 500 \<and> (500::int) < 1000 \<and> job_status demo_job = ''open'' \<and>
   isExpired demo_job 1000 \<and>
   JobDetail False (Some demo_job) (Some 3) 1000 =
     JobPage \<lparr>badge_text = ''Offer Ended'', badge_variant = ''secondary'', apply_button = False,
              close_button = False, applications_section = False\<rparr>"
proof -
  have h: "job_expires_at demo_job = Some 500" "(500::int) < 1000"
    by (simp_all add: demo_job_def)
  show ?thesis
    using expired_job_rendered_closed [OF h, of "Some 3"] h by (simp add: demo_job_def)
qed

text \<open>
  C7. For a signed-in user and a job that is open and not expired: an error of the insert
  is shown as "You have already applied to this job" when its code is \<open>23505\<close>, and
  otherwise as the error's own message or, without one, "Failed to apply", the
  \<open>catch\<close> block's text; the store is unchanged. A pair (job, applicant) that is
  already in the table gets the conflict error and hence the duplicate message. The first
  application of a pair succeeds and is stored, and the same application made again is
  then answered with the duplicate message.
\<close>

theorem apply_duplicate_message:
  assumes "maybe_single (filter (\<lambda>j. job_id j = jid) (jobs st)) = Some jd"
    and "job_status jd = ''open''"
    and "\<forall>t. job_expires_at jd = Some t \<longrightarrow> today e \<le> t \<and> today e2 \<le> t"
  shows "(insert_fault e = Some err \<longrightarrow>
            toasts (handleApply e (Some uid) jid d st) =
              [if code err = ''23505'' then ToastError ''You have already applied to this job''
               else ToastError (if message err = [] then ''Failed to apply'' else message err)] \<and>
            store_after (handleApply e (Some uid) jid d st) = st) \<and>
         (insert_fault e = None \<and>
          (\<exists>b \<in> set (job_applications st). app_job_id b = jid \<and> applicant_id b = uid) \<longrightarrow>
            toasts (handleApply e (Some uid) jid d st) = [ToastError ''You have already applied to this job''] \<and>
            store_after (handleApply e (Some uid) jid d st) = st) \<and>
         (insert_fault e = None \<and>
          \<not> (\<exists>b \<in> set (job_applications st). app_job_id b = jid \<and> applicant_id b = uid) \<longrightarrow>
            toasts (handleApply e (Some uid) jid d st) = [ToastSuccess ''Application submitted successfully!''] \<and>
            job_applications (store_after (handleApply e (Some uid) jid d st)) =
              job_applications st @
                [\<lparr>app_job_id = jid, applicant_id = uid,
                  app_message = (if trim (dialog_message d) = [] then None else Some (trim (dialog_message d)))\<rparr>] \<and>
            (insert_fault e2 = None \<longrightarrow>
               toasts (handleApply e2 (Some uid) jid d2 (store_after (handleApply e (Some uid) jid d st))) =
                 [ToastError ''You have already applied to this job''] \<and>
               store_after (handleApply e2 (Some uid) jid d2 (store_after (handleApply e (Some uid) jid d st))) =
                 store_after (handleApply e (Some uid) jid d st)))"
proof -
  have ne: "\<not> (case job_expires_at jd of None \<Rightarrow> False | Some t \<Rightarrow> t < today e)"
    "\<not> (case job_expires_at jd of None \<Rightarrow> False | Some t \<Rightarrow> t < today e2)"
    using assms(3) by (auto split: option.splits)
  have fault: "toasts (handleApply e (Some uid) jid d st) =
              [if code err = ''23505'' then ToastError ''You have already applied to this job''
               else ToastError (if message err = [] then ''Failed to apply'' else message err)] \<and>
            store_after (handleApply e (Some uid) jid d st) = st"
    if "insert_fault e = Some err"
    using assms(1,2) ne that by (simp add: handleApply_def insert_application_def caught_def)
  have dup: "toasts (handleApply e' (Some uid) jid d' st') = [ToastError ''You have already applied to this job''] \<and>
            store_after (handleApply e' (Some uid) jid d' st') = st'"
    if "insert_fault e' = None" "jobs st' = jobs st"
      "\<exists>b \<in> set (job_applications st'). app_job_id b = jid \<and> applicant_id b = uid"
      "\<not> (case job_expires_at jd of None \<Rightarrow> False | Some t \<Rightarrow> t < today e')"
    for e' d' st'
    using assms(1,2) that by (simp add: handleApply_def insert_application_def)
  have fresh: "toasts (handleApply e (Some uid) jid d st) = [ToastSuccess ''Application submitted successfully!''] \<and>
            store_after (handleApply e (Some uid) jid d st) =
              st\<lparr>job_applications := job_applications st @
                [\<lparr>app_job_id = jid, applicant_id = uid,
                  app_message = (if trim (dialog_message d) = [] then None else Some (trim (dialog_message d)))\<rparr>]\<rparr>"
    if "insert_fault e = None"
      "\<not> (\<exists>b \<in> set (job_applications st). app_job_id b = jid \<and> applicant_id b = uid)"
    using assms(1,2) ne that by (simp add: handleApply_def insert_application_def)
  show ?thesis
  proof (intro conjI impI)
    assume "insert_fault e = Some err"
    from fault [OF this]
    show "toasts (handleApply e (Some uid) jid d st) =
              [if code err = ''23505'' then ToastError ''You have already applied to this job''
               else ToastError (if message err = [] then ''Failed to apply'' else message err)]"
      and "store_after (handleApply e (Some uid) jid d st) = st"
      by simp_all
  next
    assume a: "insert_fault e = None \<and>
          (\<exists>b \<in> set (job_applications st). app_job_id b = jid \<and> applicant_id b = uid)"
    from dup [of e st d] a ne
    show "toasts (handleApply e (Some uid) jid d st) = [ToastError ''You have already applied to this job'']"
      and "store_after (handleApply e (Some uid) jid d st) = st"
      by simp_all
  next
    assume a: "insert_fault e = None \<and>
          \<not> (\<exists>b \<in> set (job_applications st). app_job_id b = jid \<and> applicant_id b = uid)"
    then have f: "toasts (handleApply e (Some uid) jid d st) = [ToastSuccess ''Application submitted successfully!'']"
      "store_after (handleApply e (Some uid) jid d st) =
              st\<lparr>job_applications := job_applications st @
                [\<lparr>app_job_id = jid, applicant_id = uid,
                  app_message = (if trim (dialog_message d) = [] then None else Some (trim (dialog_message d)))\<rparr>]\<rparr>"
      using fresh by simp_all
    show "toasts (handleApply e (Some uid) jid d st) = [ToastSuccess ''Application submitted successfully!'']"
      by (rule f)
    show "job_applications (store_after (handleApply e (Some uid) jid d st)) =
              job_applications st @
                [\<lparr>app_job_id = jid, applicant_id = uid,
                  app_message = (if trim (dialog_message d) = [] then None else Some (trim (dialog_message d)))\<rparr>]"
      by (simp add: f)
    {
      assume e2: "insert_fault e2 = None"
      have "toasts (handleApply e2 (Some uid) jid d2 (store_after (handleApply e (Some uid) jid d st))) =
                 [ToastError ''You have already applied to this job''] \<and>
            store_after (handleApply e2 (Some uid) jid d2 (store_after (handleApply e (Some uid) jid d st))) =
                 store_after (handleApply e (Some uid) jid d st)"
        using e2 ne by (intro dup) (simp_all add: f)
    }
    then show "insert_fault e2 = None \<Longrightarrow>
        toasts (handleApply e2 (Some uid) jid d2 (store_after (handleApply e (Some uid) jid d st))) =
                 [ToastError ''You have already applied to this job'']"
      and "insert_fault e2 = None \<Longrightarrow>
        store_after (handleApply e2 (Some uid) jid d2 (store_after (handleApply e (Some uid) jid d st))) =
                 store_after (handleApply e (Some uid) jid d st)"
      by simp_all
  qed
qed

theorem apply_duplicate_message_witness:
  "maybe_single (filter (\<lambda>j. job_id j = 1) (jobs demo_store)) = Some (demo_job\<lparr>job_expires_at := Some 5000\<rparr>) \<and>
   job_status (demo_job\<lparr>job_expires_at := Some 5000\<rparr>) = ''open'' \<and>
   today demo_apply_env \<le> 5000 \<and>
   toasts (handleApply demo_apply_env (Some 3) 1 demo_dialog demo_store) =
     [ToastSuccess ''Application submitted successfully!''] \<and>
   toasts (handleApply demo_apply_env (Some 3) 1 demo_dialog
     (store_after (handleApply demo_apply_env (Some 3) 1 demo_dialog demo_store))) =
     [ToastError ''You have already applied to this job''] \<and>
   toasts (handleApply (demo_apply_env\<lparr>insert_fault := Some demo_fault\<rparr>) (Some 3) 1 demo_dialog demo_store) =
     [ToastError ''permission denied'']"
proof -
  let ?jd = "demo_job\<lparr>job_expires_at := Some 5000\<rparr>"
  have h: "maybe_single (filter (\<lambda>j. job_id j = 1) (jobs demo_store)) = Some ?jd"
    "job_status ?jd = ''open''"
    by (simp_all add: demo_store_def demo_job_def)
  have t: "\<forall>t. job_expires_at ?jd = Some t \<longrightarrow> today demo_apply_env \<le> t \<and> today demo_apply_env \<le> t"
    "\<forall>t. job_expires_at ?jd = Some t \<longrightarrow>
       today (demo_apply_env\<lparr>insert_fault := Some demo_fault\<rparr>) \<le> t \<and> today demo_apply_env \<le> t"
    by (simp_all add: demo_apply_env_def)
  have f: "insert_fault demo_apply_env = None"
    "\<not> (\<exists>b \<in> set (job_applications demo_store). app_job_id b = 1 \<and> applicant_id b = 3)"
    "insert_fault (demo_apply_env\<lparr>insert_fault := Some demo_fault\<rparr>) = Some demo_fault"
    "code demo_fault \<noteq> ''23505''" "message demo_fault = ''permission denied''"
    "today demo_apply_env \<le> 5000"
    by (simp_all add: demo_apply_env_def demo_store_def demo_fault_def)
  show ?thesis
    using apply_duplicate_message [OF h t(1), where ?uid = 3 and ?d = demo_dialog and ?d2.0 = demo_dialog
        and ?err = demo_fault]
      apply_duplicate_message [OF h t(2), where ?uid = 3 and ?d = demo_dialog and ?d2.0 = demo_dialog
        and ?err = demo_fault]
      h f
    by simp
qed

end
